theory Spec2Isabelle
  imports Main "HOL-Library.AList"
begin

section \<open>Python values\<close>

text \<open>
  The wrappers exchange decoded JSON: \<open>None\<close>, booleans, integers, strings, lists and
  dictionaries. A dictionary keeps its insertion order, so it is an association list;
  \<open>d[k] = v\<close> is \<^const>\<open>AList.update\<close> (replace in place, or append), \<open>d.pop(k)\<close>
  is \<^const>\<open>AList.delete\<close> and \<open>d.get(k)\<close> is \<^const>\<open>map_of\<close>. Floating point
  numbers (coordinates) are not represented.
\<close>

datatype json =
    JNull
  | JBool bool
  | JInt int
  | JStr string
  | JList "json list"
  | JObj "(string \<times> json) list"

type_synonym dict = "(string \<times> json) list"

datatype py_exn =
    KeyError
  | TypeError
  | IndexError
  | ValueError
  | AttributeError
  | PermissionError
  | TransportError

text \<open>Truthiness, as \<open>if x:\<close> and \<open>x and y\<close> test it.\<close>

fun truthy :: "json \<Rightarrow> bool" where
  "truthy JNull = False"
| "truthy (JBool b) = b"
| "truthy (JInt i) = (i \<noteq> 0)"
| "truthy (JStr s) = (s \<noteq> [])"
| "truthy (JList xs) = (xs \<noteq> [])"
| "truthy (JObj d) = (d \<noteq> [])"

text \<open>
  \<open>==\<close> on values: a boolean equals the integer it stands for; everything else is
  compared structurally. \<^term>\<open>py_norm\<close> is the canonical representative.
\<close>

fun py_norm :: "json \<Rightarrow> json" where
  "py_norm (JBool b) = JInt (if b then 1 else 0)"
| "py_norm v = v"

definition py_eq :: "json \<Rightarrow> json \<Rightarrow> bool" where
  "py_eq a b = (py_norm a = py_norm b)"

text \<open>\<open>x in xs\<close> for a list \<open>xs\<close>.\<close>

definition py_in :: "json \<Rightarrow> json list \<Rightarrow> bool" where
  "py_in x xs = list_ex (py_eq x) xs"

text \<open>What \<open>for x in v\<close> and \<open>list += v\<close> iterate over; \<open>None\<close> when \<open>v\<close> is not iterable.\<close>

fun py_iter :: "json \<Rightarrow> json list option" where
  "py_iter (JList xs) = Some xs"
| "py_iter (JStr s) = Some (map (\<lambda>c. JStr [c]) s)"
| "py_iter (JObj d) = Some (map (\<lambda>p. JStr (fst p)) d)"
| "py_iter v = None"

text \<open>The integer an operand of \<open>int + x\<close> or \<open>x >= int\<close> stands for; \<open>None\<close> is a TypeError.\<close>

fun as_int :: "json \<Rightarrow> int option" where
  "as_int (JInt i) = Some i"
| "as_int (JBool b) = Some (if b then 1 else 0)"
| "as_int v = None"

text \<open>Substring test \<open>p in s\<close> on strings.\<close>

fun is_prefix :: "string \<Rightarrow> string \<Rightarrow> bool" where
  "is_prefix [] s = True"
| "is_prefix (p # ps) [] = False"
| "is_prefix (p # ps) (c # cs) = (p = c \<and> is_prefix ps cs)"

fun str_contains :: "string \<Rightarrow> string \<Rightarrow> bool" where
  "str_contains p [] = (p = [])"
| "str_contains p (c # cs) = (is_prefix p (c # cs) \<or> str_contains p cs)"

fun str_join :: "string \<Rightarrow> string list \<Rightarrow> string" where
  "str_join sep [] = []"
| "str_join sep [x] = x"
| "str_join sep (x # y # ys) = x @ sep @ str_join sep (y # ys)"

subsection \<open>Decimal numerals: \<open>str\<close> and \<open>int\<close>\<close>

definition digit_char :: "nat \<Rightarrow> char" where
  "digit_char d = ''0123456789'' ! d"

fun str_nat :: "nat \<Rightarrow> string" where
  "str_nat n = (if n < 10 then [digit_char n] else str_nat (n div 10) @ [digit_char (n mod 10)])"

declare str_nat.simps [simp del]

definition str_int :: "int \<Rightarrow> string" where
  "str_int i = (if i < 0 then CHR ''-'' # str_nat (nat (- i)) else str_nat (nat i))"

definition is_digit :: "char \<Rightarrow> bool" where
  "is_digit c = (c \<in> set ''0123456789'')"

definition digit_val :: "char \<Rightarrow> nat" where
  "digit_val c = of_char c - 48"

definition is_space :: "char \<Rightarrow> bool" where
  "is_space c = (of_char c \<in> {9, 10, 11, 12, 13, 28, 29, 30, 31, 32, 133, 160 :: nat})"

definition strip :: "string \<Rightarrow> string" where
  "strip s = rev (dropWhile is_space (rev (dropWhile is_space s)))"

text \<open>
  Digits with single underscores between them, as \<open>int\<close> accepts; the flag says that the
  previous character was a digit.
\<close>

fun parse_digits :: "bool \<Rightarrow> nat \<Rightarrow> string \<Rightarrow> nat option" where
  "parse_digits prev acc [] = (if prev then Some acc else None)"
| "parse_digits prev acc (c # cs) =
     (if is_digit c then parse_digits True (10 * acc + digit_val c) cs
      else if c = CHR ''_'' \<and> prev then parse_digits False acc cs
      else None)"

text \<open>
  \<open>int(s)\<close>: surrounding whitespace, an optional sign, then digits; \<open>None\<close> is the
  ValueError. Among the code points below 256 the decimal digits are \<open>0\<close> to \<open>9\<close>, and
  the white space is 9 to 13, 28 to 32, 133 and 160.
\<close>

definition py_int :: "string \<Rightarrow> int option" where
  "py_int s =
     (case strip s of
        [] \<Rightarrow> None
      | c # cs \<Rightarrow>
          if c = CHR ''-'' then map_option (\<lambda>n. - int n) (parse_digits False 0 cs)
          else if c = CHR ''+'' then map_option int (parse_digits False 0 cs)
          else map_option int (parse_digits False 0 (c # cs)))"

subsection \<open>\<open>str\<close> and \<open>repr\<close> of a value, as an f-string renders it\<close>

text \<open>
  A character of a string is a code point below 256. \<open>repr\<close> of a string puts it in single
  quotes, or in double quotes when it holds a single quote and no double quote. Inside, the
  backslash and the chosen quote are escaped with a backslash; tab, newline and carriage
  return are written as a backslash and \<open>t\<close>, \<open>n\<close>, \<open>r\<close>; any other character that is not
  printable (below 32, 127 to 160, 173) is written as a backslash, \<open>x\<close> and two
  hexadecimal digits.
\<close>

definition quote :: "string \<Rightarrow> string" where
  "quote s = CHR 0x27 # s @ [CHR 0x27]"

definition hex_digit :: "nat \<Rightarrow> char" where
  "hex_digit d = ''0123456789abcdef'' ! d"

definition printable :: "char \<Rightarrow> bool" where
  "printable c =
     (let n = (of_char c :: nat) in 32 \<le> n \<and> (n < 127 \<or> 160 < n) \<and> n \<noteq> 173)"

definition repr_char :: "char \<Rightarrow> char \<Rightarrow> string" where
  "repr_char q c =
     (if c = q \<or> c = CHR 0x5C then [CHR 0x5C, c]
      else if c = CHR 0x09 then [CHR 0x5C, CHR ''t'']
      else if c = CHR 0x0A then [CHR 0x5C, CHR ''n'']
      else if c = CHR 0x0D then [CHR 0x5C, CHR ''r'']
      else if printable c then [c]
      else [CHR 0x5C, CHR ''x'', hex_digit (of_char c div 16), hex_digit (of_char c mod 16)])"

definition repr_str :: "string \<Rightarrow> string" where
  "repr_str s =
     (let q = (if CHR 0x27 \<in> set s \<and> CHR 0x22 \<notin> set s then CHR 0x22 else CHR 0x27)
      in q # concat (map (repr_char q) s) @ [q])"

fun py_repr :: "json \<Rightarrow> string" where
  "py_repr JNull = ''None''"
| "py_repr (JBool b) = (if b then ''True'' else ''False'')"
| "py_repr (JInt i) = str_int i"
| "py_repr (JStr s) = repr_str s"
| "py_repr (JList xs) = ''['' @ str_join '', '' (map py_repr xs) @ '']''"
| "py_repr (JObj d) =
     ''{'' @ str_join '', '' (map (\<lambda>p. repr_str (fst p) @ '': '' @ py_repr (snd p)) d) @ ''}''"

definition py_str :: "json \<Rightarrow> string" where
  "py_str v = (case v of JStr s \<Rightarrow> s | _ \<Rightarrow> py_repr v)"

section \<open>Filter builder: \<open>construct_filter_param\<close>\<close>

text \<open>
  \<open>src/app_flask/NGD_API_Wrappers.py\<close>: values with \<open>type(v) == str\<close> are wrapped in
  single quotes, then every pair is rendered as \<open>(k=v)\<close> and the pieces joined with \<open>and\<close>.
\<close>

definition quote_if_str :: "json \<Rightarrow> json" where
  "quote_if_str v = (case v of JStr s \<Rightarrow> JStr (quote s) | _ \<Rightarrow> v)"

definition filter_list :: "dict \<Rightarrow> string list" where
  "filter_list params = map (\<lambda>(k, v). ''('' @ k @ ''='' @ py_str v @ '')'') params"

definition construct_filter_param_flask :: "dict \<Rightarrow> string" where
  "construct_filter_param_flask params =
     str_join ''and'' (filter_list (map (\<lambda>(k, v). (k, quote_if_str v)) params))"

text \<open>
  \<open>src/Azure/NGD_API_Wrappers.py\<close> tests \<open>isinstance(str, v)\<close>: the class \<open>str\<close> is the
  object and the parameter value \<open>v\<close> is the class information. Python raises TypeError
  (``arg 2 must be a type, a tuple of types, or a union'') for every \<open>v\<close> that is a
  value of this model.
\<close>

fun isinstance_str_of :: "json \<Rightarrow> py_exn + bool" where
  "isinstance_str_of v = Inl TypeError"

fun quote_loop_azure :: "(string \<times> json) list \<Rightarrow> dict \<Rightarrow> py_exn + dict" where
  "quote_loop_azure [] params = Inr params"
| "quote_loop_azure ((k, v) # items) params =
     (case isinstance_str_of v of
        Inl e \<Rightarrow> Inl e
      | Inr b \<Rightarrow>
          quote_loop_azure items
            (if b then AList.update k (JStr (quote (py_str v))) params else params))"

definition construct_filter_param :: "dict \<Rightarrow> py_exn + string" where
  "construct_filter_param params =
     (case quote_loop_azure params params of
        Inl e \<Rightarrow> Inl e
      | Inr params' \<Rightarrow> Inr (str_join ''and'' (filter_list params')))"

section \<open>Collection version resolver\<close>

text \<open>
  \<open>re.split(r'-(?=[^-]*$)', col)\<close> splits at the last hyphen; without a hyphen the list has
  one element and the unpacking into \<open>basename, version\<close> raises ValueError.
\<close>

definition rsplit_hyphen :: "string \<Rightarrow> (string \<times> string) option" where
  "rsplit_hyphen s =
     (let r = rev s; rest = dropWhile (\<lambda>c. c \<noteq> CHR ''-'') r
      in if rest = [] then None
         else Some (rev (tl rest), rev (takeWhile (\<lambda>c. c \<noteq> CHR ''-'') r)))"

text \<open>\<open>max(versions)\<close> on a non-empty list.\<close>

fun max_list :: "int list \<Rightarrow> int" where
  "max_list [] = 0"
| "max_list (v # vs) = fold max vs v"

text \<open>
  \<open>src/Azure\<close>, \<open>get_latest_collection_versions\<close>: the first loop groups the version
  numbers by base name, the second builds \<open>basename-max\<close>. The catalogue is the list of
  collection ids the upstream returned.
\<close>

fun group_versions :: "string list \<Rightarrow> (string \<times> int list) list \<Rightarrow> py_exn + (string \<times> int list) list" where
  "group_versions [] collections_dict = Inr collections_dict"
| "group_versions (col # cols) collections_dict =
     (case rsplit_hyphen col of
        None \<Rightarrow> Inl ValueError
      | Some (basename, version) \<Rightarrow>
          (case py_int version of
             None \<Rightarrow> Inl ValueError
           | Some v \<Rightarrow>
               group_versions cols
                 (case map_of collections_dict basename of
                    Some versions \<Rightarrow> AList.update basename (versions @ [v]) collections_dict
                  | None \<Rightarrow> AList.update basename [v] collections_dict)))"

definition output_lookup :: "(string \<times> int list) list \<Rightarrow> (string \<times> string) list" where
  "output_lookup collections_dict =
     map (\<lambda>(basename, versions). (basename, basename @ ''-'' @ str_int (max_list versions)))
       collections_dict"

definition get_latest_collection_versions :: "string list \<Rightarrow> py_exn + (string \<times> string) list" where
  "get_latest_collection_versions collections_list =
     (case group_versions collections_list [] of
        Inl e \<Rightarrow> Inl e
      | Inr collections_dict \<Rightarrow> Inr (output_lookup collections_dict))"

text \<open>
  \<open>src/app_flask\<close>, \<open>get_latest_collection_versions\<close>: the base names are the ids with
  \<open>-\d+$\<close> removed, where \<open>$\<close> is the end of the id or the place before a newline that
  ends it; for each base name the candidates are the ids that \<open>startswith(base_name)\<close>,
  and the first one with the greatest \<open>int(c.split('-')[-1])\<close> is taken. Python leaves the
  order open in which the set of base names is iterated, and with it the order of the
  entries of the result; which id a base name is mapped to does not depend on it.
\<close>

definition strip_digits :: "string \<Rightarrow> string option" where
  "strip_digits c =
     (case rsplit_hyphen c of
        None \<Rightarrow> None
      | Some (b, v) \<Rightarrow> if v \<noteq> [] \<and> list_all is_digit v then Some b else None)"

definition strip_version :: "string \<Rightarrow> string" where
  "strip_version c =
     (if c \<noteq> [] \<and> last c = CHR 0x0A
      then (case strip_digits (butlast c) of None \<Rightarrow> c | Some b \<Rightarrow> b @ [CHR 0x0A])
      else (case strip_digits c of None \<Rightarrow> c | Some b \<Rightarrow> b))"

definition version_key :: "string \<Rightarrow> int option" where
  "version_key c = py_int (case rsplit_hyphen c of None \<Rightarrow> c | Some (b, v) \<Rightarrow> v)"

fun max_by_version :: "string \<Rightarrow> int \<Rightarrow> string list \<Rightarrow> py_exn + string" where
  "max_by_version best best_key [] = Inr best"
| "max_by_version best best_key (c # cs) =
     (case version_key c of
        None \<Rightarrow> Inl ValueError
      | Some k \<Rightarrow> if best_key < k then max_by_version c k cs else max_by_version best best_key cs)"

definition latest_of :: "string list \<Rightarrow> py_exn + string" where
  "latest_of all_versions =
     (case all_versions of
        [] \<Rightarrow> Inl ValueError
      | c # cs \<Rightarrow>
          (case version_key c of
             None \<Rightarrow> Inl ValueError
           | Some k \<Rightarrow> max_by_version c k cs))"

fun flask_lookup_loop :: "string list \<Rightarrow> string list \<Rightarrow> (string \<times> string) list \<Rightarrow> py_exn + (string \<times> string) list" where
  "flask_lookup_loop [] collections_list lookup = Inr lookup"
| "flask_lookup_loop (base_name # bs) collections_list lookup =
     (case latest_of (filter (is_prefix base_name) collections_list) of
        Inl e \<Rightarrow> Inl e
      | Inr latest_version \<Rightarrow>
          flask_lookup_loop bs collections_list (AList.update base_name latest_version lookup))"

definition get_latest_collection_versions_flask :: "string list \<Rightarrow> py_exn + (string \<times> string) list" where
  "get_latest_collection_versions_flask collections_list =
     flask_lookup_loop (remdups (map strip_version collections_list)) collections_list []"

section \<open>Call arguments, mutable mappings and the outside world\<close>

text \<open>
  A geometry is a single shape (Point, LineString, Polygon) or a collection with
  \<open>.geoms\<close>; each carries the WKT text that \<open>str\<close> renders. The \<open>wkt\<close> argument is a
  string or a geometry object.
\<close>

datatype geom = Single string | Multi string "geom list"

datatype wkt_arg = WktText string | WktGeom geom

text \<open>
  The keyword arguments a wrapper receives and passes on; \<open>None\<close> is an argument that is
  not passed. The mappings \<open>query_params\<close>, \<open>filter_params\<close> and \<open>headers\<close> are
  mutable objects shared with the caller, so they are passed as addresses into a heap of
  dictionaries. \<open>request_limit\<close> can be passed as \<open>None\<close>, which differs from leaving
  it at its default.
\<close>

type_synonym addr = nat

record kwargs =
  kw_collection :: "json option"
  kw_query_params :: "addr option"
  kw_filter_params :: "addr option"
  kw_headers :: "addr option"
  kw_wkt :: "wkt_arg option"
  kw_use_latest_collection :: "bool option"
  kw_add_metadata :: "bool option"
  kw_hierarchical_output :: "bool option"
  kw_limit :: "int option"
  kw_request_limit :: "int option option"

text \<open>
  The world a call runs in: the dictionaries alive in the process, \<open>os.environ\<close>, and the
  state of everything outside (the upstream service).
\<close>

record 'u world =
  heap :: "dict list"
  environ :: "(string \<times> string) list"
  upstream :: 'u

definition deref :: "'u world \<Rightarrow> addr \<Rightarrow> dict" where
  "deref w a = (if a < length (heap w) then heap w ! a else [])"

definition alloc :: "dict \<Rightarrow> 'u world \<Rightarrow> addr \<times> 'u world" where
  "alloc d w = (length (heap w), w\<lparr>heap := heap w @ [d]\<rparr>)"

definition set_item :: "addr \<Rightarrow> string \<Rightarrow> json \<Rightarrow> 'u world \<Rightarrow> 'u world" where
  "set_item a k v w = w\<lparr>heap := (heap w)[a := AList.update k v (deref w a)]\<rparr>"


text \<open>\<open>x.copy() if x else {}\<close>: a new dictionary with the contents of \<open>x\<close>, if any.\<close>

definition copy_or_empty :: "addr option \<Rightarrow> 'u world \<Rightarrow> addr \<times> 'u world" where
  "copy_or_empty p w = (case p of None \<Rightarrow> alloc [] w | Some a \<Rightarrow> alloc (deref w a) w)"

text \<open>
  A wrapped function: it may raise, it returns a dictionary, and it changes the world.
\<close>

type_synonym 'u callable = "kwargs \<Rightarrow> 'u world \<Rightarrow> (py_exn + dict) \<times> 'u world"

text \<open>How a loop body ends: an exception, an early \<open>return\<close>, or normal completion.\<close>

datatype 'a flow = Raise py_exn | Return dict | Normal 'a

text \<open>\<open>json_response.get('code') and json_response['code'] >= 400\<close>\<close>

definition code_is_error :: "dict \<Rightarrow> py_exn + bool" where
  "code_is_error json_response =
     (case map_of json_response ''code'' of
        None \<Rightarrow> Inr False
      | Some c \<Rightarrow>
          if truthy c
          then (case as_int c of None \<Rightarrow> Inl TypeError | Some i \<Rightarrow> Inr (400 \<le> i))
          else Inr False)"

section \<open>Pagination coordinator: \<open>limit_extension\<close>\<close>

text \<open>\<open>[link for link in json_response['links'] if link['rel'] == 'next']\<close>\<close>

fun next_links :: "json list \<Rightarrow> py_exn + json list" where
  "next_links [] = Inr []"
| "next_links (link # links) =
     (case link of
        JObj d \<Rightarrow>
          (case map_of d ''rel'' of
             None \<Rightarrow> Inl KeyError
           | Some rel \<Rightarrow>
               (case next_links links of
                  Inl e \<Rightarrow> Inl e
                | Inr ls \<Rightarrow> Inr (if py_eq rel (JStr ''next'') then link # ls else ls)))
      | _ \<Rightarrow> Inl TypeError)"

text \<open>
  One page after the call: the early return on an error payload, then the features to
  append and whether a \<open>next\<close> link is present.
\<close>

definition read_page :: "dict \<Rightarrow> (json list \<times> bool) flow" where
  "read_page json_response =
     (case code_is_error json_response of
        Inl e \<Rightarrow> Raise e
      | Inr True \<Rightarrow> Return json_response
      | Inr False \<Rightarrow>
          (case map_of json_response ''features'' of
             None \<Rightarrow> Raise KeyError
           | Some fs \<Rightarrow>
               (case py_iter fs of
                  None \<Rightarrow> Raise TypeError
                | Some page \<Rightarrow>
                    (case map_of json_response ''links'' of
                       None \<Rightarrow> Raise KeyError
                     | Some ls \<Rightarrow>
                         (case py_iter ls of
                            None \<Rightarrow> Raise TypeError
                          | Some links \<Rightarrow>
                              (case next_links links of
                                 Inl e \<Rightarrow> Raise e
                               | Inr nl \<Rightarrow> Normal (page, nl \<noteq> [])))))))"

text \<open>\<open>not x\<close> for an optional integer.\<close>

definition not_int :: "int option \<Rightarrow> bool" where
  "not_int x = (case x of None \<Rightarrow> True | Some i \<Rightarrow> i = 0)"

text \<open>
  The \<open>while\<close> loop. It need not end (a negative \<open>request_limit\<close>, no \<open>limit\<close> and an
  upstream that always links to a next page), so it is a partial function.
\<close>

partial_function (option) limit_loop ::
  "'u callable \<Rightarrow> kwargs \<Rightarrow> int option \<Rightarrow> int option \<Rightarrow> addr \<Rightarrow>
     int \<Rightarrow> int \<Rightarrow> json list \<Rightarrow> 'u world \<Rightarrow> ((int \<times> json list) flow \<times> 'u world) option"
where
  "limit_loop func kwargs request_limit lim qp request_count offset features w =
     (if Some request_count \<noteq> request_limit \<and> (not_int lim \<or> offset < the lim)
      then
        let batch_count = (if not_int lim then None else Some (the lim div 100));
            final_batchsize = the lim mod 100;
            w1 = (if Some request_count = batch_count
                  then set_item qp ''limit'' (JInt final_batchsize) w else w);
            w2 = set_item qp ''offset'' (JInt offset) w1
        in if kw_add_metadata kwargs \<noteq> None then Some (Raise TypeError, w2)
           else
             (case func (kwargs\<lparr>kw_query_params := Some qp, kw_add_metadata := Some False\<rparr>) w2 of
                (Inl e, w3) \<Rightarrow> Some (Raise e, w3)
              | (Inr json_response, w3) \<Rightarrow>
                  (case read_page json_response of
                     Raise e \<Rightarrow> Some (Raise e, w3)
                   | Return r \<Rightarrow> Some (Return r, w3)
                   | Normal (page, has_next) \<Rightarrow>
                       if has_next
                       then limit_loop func kwargs request_limit lim qp
                              (request_count + 1) (offset + 100) (features @ page) w3
                       else Some (Normal (request_count + 1, features @ page), w3)))
      else Some (Normal (request_count, features), w))"

declare limit_loop.simps [code]

definition offset_error :: dict where
  "offset_error =
     [(''code'', JInt 400),
      (''description'', JStr (quote ''offset'' @ '' is not a valid attribute for functions using this Catalyst wrapper.'')),
      (''errorSource'', JStr ''Catalyst Wrapper'')]"

text \<open>
  The wrapper. \<open>now\<close> is the reading of the clock when the result is built. The result is
  \<open>None\<close> exactly when the loop does not end.
\<close>

definition limit_extension ::
  "'u callable \<Rightarrow> string \<Rightarrow> kwargs \<Rightarrow> 'u world \<Rightarrow> ((py_exn + dict) \<times> 'u world) option"
where
  "limit_extension func now kw w =
     (let request_limit = (case kw_request_limit kw of None \<Rightarrow> Some 50 | Some rl \<Rightarrow> rl);
          lim = kw_limit kw;
          kwargs = kw\<lparr>kw_request_limit := None, kw_limit := None, kw_query_params := None\<rparr>;
          (qp, w0) = copy_or_empty (kw_query_params kw) w
      in if map_of (deref w0 qp) ''offset'' \<noteq> None then Some (Inr offset_error, w0)
         else if not_int lim \<and> not_int request_limit then Some (Inl AttributeError, w0)
         else
           (case limit_loop func kwargs request_limit lim qp 0 0 [] w0 of
              None \<Rightarrow> None
            | Some (Raise e, w') \<Rightarrow> Some (Inl e, w')
            | Some (Return r, w') \<Rightarrow> Some (Inr r, w')
            | Some (Normal (request_count, features), w') \<Rightarrow>
                Some (Inr [(''type'', JStr ''FeatureCollection''),
                           (''numberOfRequests'', JInt request_count),
                           (''numberReturned'', JInt (int (length features))),
                           (''timeStamp'', JStr now),
                           (''collection'', (case kw_collection kwargs of None \<Rightarrow> JNull | Some c \<Rightarrow> c)),
                           (''features'', JList features)], w')))"

section \<open>Recording the calls of a wrapped function\<close>

text \<open>
  \<^term>\<open>logged func\<close> behaves as \<open>func\<close> and appends each call to a log kept outside the
  reach of \<open>func\<close>: the arguments, the dictionaries as they were at the call, the result.
\<close>

type_synonym call = "kwargs \<times> dict list \<times> (py_exn + dict)"

definition logged :: "'u callable \<Rightarrow> ('u \<times> call list) callable" where
  "logged func kw w =
     (case func kw \<lparr>heap = heap w, environ = environ w, upstream = fst (upstream w)\<rparr> of
        (r, w') \<Rightarrow>
          (r, \<lparr>heap = heap w', environ = environ w',
                upstream = (upstream w', snd (upstream w) @ [(kw, heap w, r)])\<rparr>))"

text \<open>The query parameters a logged call was made with.\<close>

definition sent_query :: "call \<Rightarrow> dict" where
  "sent_query c =
     (case c of (kw, h, r) \<Rightarrow>
        (case kw_query_params kw of None \<Rightarrow> [] | Some a \<Rightarrow> if a < length h then h ! a else []))"

section \<open>Geometry fan-out: \<open>multigeometry_search_extension\<close>\<close>

fun multilevel_explode :: "geom \<Rightarrow> geom list" where
  "multilevel_explode (Single s) = [Single s]"
| "multilevel_explode (Multi s lower_shapes) = concat (map multilevel_explode lower_shapes)"

subsection \<open>\<open>flatten_search_areas\<close>\<close>

text \<open>
  The first inner loop: \<open>feat[key] = value\<close> and \<open>feat['properties'][key] = value\<close> for
  every feature. The Single-Request Fetcher runs the same loop with the key
  \<open>collection\<close>.
\<close>

fun tag_features :: "string \<Rightarrow> json \<Rightarrow> json list \<Rightarrow> py_exn + dict list" where
  "tag_features key val [] = Inr []"
| "tag_features key val (feat # feats) =
     (case feat of
        JObj d \<Rightarrow>
          (case map_of d ''properties'' of
             None \<Rightarrow> Inl KeyError
           | Some (JObj props) \<Rightarrow>
               (case tag_features key val feats of
                  Inl e \<Rightarrow> Inl e
                | Inr ds \<Rightarrow>
                    Inr (AList.update ''properties'' (JObj (AList.update key val props))
                           (AList.update key val d) # ds))
           | Some _ \<Rightarrow> Inl TypeError)
      | _ \<Rightarrow> Inl TypeError)"

text \<open>
  \<open>[v for v, gf in enumerate(geojson_fts) if gf['id'] == feat['id']][0]\<close>; every member
  of \<open>geojson_fts\<close> has an \<open>id\<close>, which was read when the member was added.
\<close>

definition first_index :: "json \<Rightarrow> dict list \<Rightarrow> nat option" where
  "first_index fid geojson_fts =
     (case filter (\<lambda>v. case map_of (geojson_fts ! v) ''id'' of
                          Some g \<Rightarrow> py_eq g fid | None \<Rightarrow> False) [0..<length geojson_fts] of
        [] \<Rightarrow> None
      | v # vs \<Rightarrow> Some v)"

text \<open>
  The second inner loop. A feature whose id is in \<open>ids\<close> is merged into the member of
  \<open>geojson_fts\<close> with that id: the number of the search area is appended to its
  \<open>searchAreaNumber\<close>, which becomes a list. Any other feature is new.
\<close>

fun merge_features ::
  "json \<Rightarrow> dict list \<Rightarrow> json list \<Rightarrow> dict list \<Rightarrow> dict list \<Rightarrow>
     py_exn + (json list \<times> dict list \<times> dict list)"
where
  "merge_features search_area_number [] ids geojson_fts new_features =
     Inr (ids, geojson_fts, new_features)"
| "merge_features search_area_number (feat # feats) ids geojson_fts new_features =
     (case map_of feat ''id'' of
        None \<Rightarrow> Inl KeyError
      | Some fid \<Rightarrow>
          if py_in fid ids
          then
            (case first_index fid geojson_fts of
               None \<Rightarrow> Inl IndexError
             | Some index \<Rightarrow>
                 (case map_of (geojson_fts ! index) ''searchAreaNumber'' of
                    None \<Rightarrow> Inl KeyError
                  | Some n \<Rightarrow>
                      let n' = (case n of JList ns \<Rightarrow> ns | _ \<Rightarrow> [n]) @ [search_area_number]
                      in merge_features search_area_number feats ids
                           (geojson_fts[index :=
                              AList.update ''searchAreaNumber'' (JList n') (geojson_fts ! index)])
                           new_features))
          else
            merge_features search_area_number feats (ids @ [fid]) geojson_fts
              (new_features @ [AList.update ''searchAreaNumber'' search_area_number feat]))"

text \<open>The loop over the search areas, with the running counters of \<open>geojson\<close>.\<close>

fun flatten_loop ::
  "dict list \<Rightarrow> json list \<Rightarrow> dict list \<Rightarrow> int \<Rightarrow> int \<Rightarrow> py_exn + (dict list \<times> int \<times> int)"
where
  "flatten_loop [] ids geojson_fts number_of_requests number_returned =
     Inr (geojson_fts, number_of_requests, number_returned)"
| "flatten_loop (area # areas) ids geojson_fts number_of_requests number_returned =
     (case map_of area ''searchAreaNumber'' of
        None \<Rightarrow> Inl KeyError
      | Some search_area_number \<Rightarrow>
          (case map_of area ''features'' of
             None \<Rightarrow> Inl KeyError
           | Some fv \<Rightarrow>
               (case py_iter fv of
                  None \<Rightarrow> Inl TypeError
                | Some features \<Rightarrow>
                    (case tag_features ''searchAreaNumber'' search_area_number features of
                       Inl e \<Rightarrow> Inl e
                     | Inr tagged \<Rightarrow>
                         (case merge_features search_area_number tagged ids geojson_fts [] of
                            Inl e \<Rightarrow> Inl e
                          | Inr (ids', geojson_fts', new_features) \<Rightarrow>
                              (case map_of area ''numberOfRequests'' of
                                 None \<Rightarrow> Inl KeyError
                               | Some r \<Rightarrow>
                                   (case as_int r of
                                      None \<Rightarrow> Inl TypeError
                                    | Some k \<Rightarrow>
                                        flatten_loop areas ids' (geojson_fts' @ new_features)
                                          (number_of_requests + k)
                                          (number_returned + int (length new_features)))))))))"

definition flatten_search_areas :: "dict list \<Rightarrow> string \<Rightarrow> py_exn + dict" where
  "flatten_search_areas search_areas now =
     (case flatten_loop search_areas [] [] 0 0 of
        Inl e \<Rightarrow> Inl e
      | Inr (geojson_fts, number_of_requests, number_returned) \<Rightarrow>
          Inr [(''type'', JStr ''FeatureCollection''),
               (''numberOfRequests'', JInt number_of_requests),
               (''numberReturned'', JInt number_returned),
               (''features'', JList (map JObj geojson_fts)),
               (''timeStamp'', JStr now)])"

subsection \<open>The wrapper\<close>

definition invalid_geometry_error :: dict where
  "invalid_geometry_error =
     [(''code'', JInt 400),
      (''description'', JStr ''The input geometry is not valid. Please ensure you have the correct formatting for your input geometry type.''),
      (''help'', JStr ''http://libgeos.org/specifications/wkt/''),
      (''errorSource'', JStr ''Catalyst Wrapper'')]"

text \<open>\<open>for search_area, geom in enumerate(partial_geoms)\<close>\<close>

fun search_loop ::
  "'u callable \<Rightarrow> kwargs \<Rightarrow> geom list \<Rightarrow> nat \<Rightarrow> dict list \<Rightarrow> 'u world \<Rightarrow> dict list flow \<times> 'u world"
where
  "search_loop func kwargs [] search_area search_areas w = (Normal search_areas, w)"
| "search_loop func kwargs (geom # geoms) search_area search_areas w =
     (case func (kwargs\<lparr>kw_wkt := Some (WktGeom geom)\<rparr>) w of
        (Inl e, w') \<Rightarrow> (Raise e, w')
      | (Inr json_response, w') \<Rightarrow>
          (case code_is_error json_response of
             Inl e \<Rightarrow> (Raise e, w')
           | Inr True \<Rightarrow> (Return json_response, w')
           | Inr False \<Rightarrow>
               search_loop func kwargs geoms (search_area + 1)
                 (search_areas @
                    [AList.update ''searchAreaNumber'' (JInt (int search_area)) json_response])
                 w'))"

text \<open>
  \<open>from_wkt\<close> is the parser of the geometry library; \<open>None\<close> is its GEOSException. A call
  without \<open>wkt\<close> misses a required argument.
\<close>

definition multigeometry_search_extension ::
  "'u callable \<Rightarrow> (string \<Rightarrow> geom option) \<Rightarrow> string \<Rightarrow> 'u callable"
where
  "multigeometry_search_extension func from_wkt now kw w =
     (case kw_wkt kw of
        None \<Rightarrow> (Inl TypeError, w)
      | Some wkt \<Rightarrow>
          (case (case wkt of WktText s \<Rightarrow> from_wkt s | WktGeom g \<Rightarrow> Some g) of
             None \<Rightarrow> (Inr invalid_geometry_error, w)
           | Some full_geom \<Rightarrow>
               let hierarchical_output =
                     (case kw_hierarchical_output kw of None \<Rightarrow> False | Some b \<Rightarrow> b);
                   kwargs = kw\<lparr>kw_wkt := None, kw_hierarchical_output := None\<rparr>
               in (case search_loop func kwargs (multilevel_explode full_geom) 0 [] w of
                     (Raise e, w') \<Rightarrow> (Inl e, w')
                   | (Return r, w') \<Rightarrow> (Inr r, w')
                   | (Normal search_areas, w') \<Rightarrow>
                       if hierarchical_output
                       then (Inr [(''searchAreas'', JList (map JObj search_areas))], w')
                       else (case flatten_search_areas search_areas now of
                               Inl e \<Rightarrow> (Inl e, w')
                             | Inr response \<Rightarrow> (Inr response, w')))))"

section \<open>Collection fan-out: \<open>multiple_collections_extension\<close>\<close>

subsection \<open>\<open>get_specific_latest_collections\<close>\<close>

text \<open>
  The dictionary comprehension \<open>{col: latest_collections[col] for col in collection}\<close>;
  \<open>Inl col\<close> is the KeyError with the first missing key.
\<close>

fun lookup_all :: "(string \<times> string) list \<Rightarrow> string list \<Rightarrow> dict \<Rightarrow> string + dict" where
  "lookup_all latest_collections [] acc = Inr acc"
| "lookup_all latest_collections (col # cols) acc =
     (case map_of latest_collections col of
        None \<Rightarrow> Inl col
      | Some full_name \<Rightarrow> lookup_all latest_collections cols (AList.update col (JStr full_name) acc))"

definition not_found_error :: "string \<Rightarrow> dict" where
  "not_found_error col =
     [(''code'', JInt 404),
      (''description'', JStr (''Collection '' @ repr_str col @ '' is not a supported Collection base name. The name must not include a version suffix. Please refer to the documentation for a list of supported Collections.'')),
      (''help'', JStr ''https://api.os.uk/features/ngd/ofa/v1/collections'')]"

text \<open>
  \<open>collections_list\<close> is the list of ids in the catalogue that the upstream returned.
  The result is a dictionary in both cases: the resolved names, or the 404 payload.
\<close>

definition get_specific_latest_collections :: "string list \<Rightarrow> string list \<Rightarrow> py_exn + dict" where
  "get_specific_latest_collections collections_list collection =
     (case get_latest_collection_versions collections_list of
        Inl e \<Rightarrow> Inl e
      | Inr latest_collections \<Rightarrow>
          (case lookup_all latest_collections collection [] of
             Inl col \<Rightarrow> Inr (not_found_error col)
           | Inr specific_latest_collections \<Rightarrow> Inr specific_latest_collections))"

subsection \<open>\<open>apply_latest_collection\<close>\<close>

text \<open>\<open>c[-1].isdigit()\<close> decides; \<open>c[-1]\<close> of an empty name is an IndexError.\<close>

fun split_versions :: "string list \<Rightarrow> string list \<Rightarrow> string list \<Rightarrow> py_exn + (string list \<times> string list)" where
  "split_versions [] has_version no_version = Inr (has_version, no_version)"
| "split_versions (c # cs) has_version no_version =
     (if c = [] then Inl IndexError
      else if is_digit (last c) then split_versions cs (has_version @ [c]) no_version
      else split_versions cs has_version (no_version @ [c]))"

text \<open>
  \<open>get_collections\<close> is the request for the catalogue. The new list is
  \<open>list(get_specific_latest_collections(no_version).values())\<close> extended by
  \<open>has_version\<close>: the values of whatever dictionary came back.
\<close>

definition apply_latest_collection ::
  "('u \<Rightarrow> (py_exn + string list) \<times> 'u) \<Rightarrow> string list \<Rightarrow> 'u world \<Rightarrow> (py_exn + json list) \<times> 'u world"
where
  "apply_latest_collection get_collections collection w =
     (case split_versions collection [] [] of
        Inl e \<Rightarrow> (Inl e, w)
      | Inr (has_version, no_version) \<Rightarrow>
          (case get_collections (upstream w) of
             (Inl e, u') \<Rightarrow> (Inl e, w\<lparr>upstream := u'\<rparr>)
           | (Inr collections_list, u') \<Rightarrow>
               (case get_specific_latest_collections collections_list no_version of
                  Inl e \<Rightarrow> (Inl e, w\<lparr>upstream := u'\<rparr>)
                | Inr d \<Rightarrow> (Inr (map snd d @ map JStr has_version), w\<lparr>upstream := u'\<rparr>))))"

subsection \<open>The wrapper\<close>

text \<open>\<open>p in x\<close> for a string \<open>p\<close>: substring of a string, member of a list, key of a dictionary.\<close>

fun py_contains :: "string \<Rightarrow> json \<Rightarrow> py_exn + bool" where
  "py_contains p (JStr s) = Inr (str_contains p s)"
| "py_contains p (JList xs) = Inr (py_in (JStr p) xs)"
| "py_contains p (JObj d) = Inr (map_of d p \<noteq> None)"
| "py_contains p v = Inl TypeError"

text \<open>
  The two tests after each call:
  \<open>code == 404 and 'is not a supported Collection' in json_response.get('description')\<close>,
  then \<open>code >= 400\<close>, with \<open>code = json_response.get('code', 200)\<close>.
\<close>

definition collection_error :: "dict \<Rightarrow> py_exn + bool" where
  "collection_error json_response =
     (let c = (case map_of json_response ''code'' of None \<Rightarrow> JInt 200 | Some v \<Rightarrow> v);
          description = (case map_of json_response ''description'' of None \<Rightarrow> JNull | Some v \<Rightarrow> v)
      in case (if py_eq c (JInt 404)
               then py_contains ''is not a supported Collection'' description
               else Inr False) of
           Inl e \<Rightarrow> Inl e
         | Inr True \<Rightarrow> Inr True
         | Inr False \<Rightarrow> (case as_int c of None \<Rightarrow> Inl TypeError | Some i \<Rightarrow> Inr (400 \<le> i)))"

text \<open>
  \<open>results[col] = json_response\<close>: \<open>results\<close> is keyed by the collection as passed, which
  must be hashable; a key equal to an earlier one keeps the earlier place.
\<close>

fun hashable :: "json \<Rightarrow> bool" where
  "hashable (JList xs) = False"
| "hashable (JObj d) = False"
| "hashable v = True"

fun results_update :: "json \<Rightarrow> dict \<Rightarrow> (json \<times> dict) list \<Rightarrow> (json \<times> dict) list" where
  "results_update col r [] = [(col, r)]"
| "results_update col r ((col', r') # results) =
     (if py_eq col' col then (col', r) # results
      else (col', r') # results_update col r results)"

fun collection_loop ::
  "'u callable \<Rightarrow> kwargs \<Rightarrow> bool \<Rightarrow> json list \<Rightarrow> (json \<times> dict) list \<Rightarrow> 'u world \<Rightarrow>
     (json \<times> dict) list flow \<times> 'u world"
where
  "collection_loop func kwargs hierarchical_output [] results w = (Normal results, w)"
| "collection_loop func kwargs hierarchical_output (col # cols) results w =
     (case func (kwargs\<lparr>kw_collection := Some col,
                         kw_hierarchical_output := Some hierarchical_output\<rparr>) w of
        (Inl e, w') \<Rightarrow> (Raise e, w')
      | (Inr json_response, w') \<Rightarrow>
          (case collection_error json_response of
             Inl e \<Rightarrow> (Raise e, w')
           | Inr True \<Rightarrow> (Return json_response, w')
           | Inr False \<Rightarrow>
               if hashable col
               then collection_loop func kwargs hierarchical_output cols
                      (results_update col json_response results) w'
               else (Raise TypeError, w')))"

text \<open>
  The merge of the per-collection results. The per-collection counters are keyed by the
  collection; a key is rendered by \<open>str\<close> here.
\<close>

fun merge_collections ::
  "(json \<times> dict) list \<Rightarrow> json list \<Rightarrow> int \<Rightarrow> dict \<Rightarrow> int \<Rightarrow> dict \<Rightarrow>
     py_exn + (json list \<times> int \<times> dict \<times> int \<times> dict)"
where
  "merge_collections [] features number_of_requests requests_by number_returned returned_by =
     Inr (features, number_of_requests, requests_by, number_returned, returned_by)"
| "merge_collections ((col, col_results) # results) features number_of_requests requests_by
       number_returned returned_by =
     (case map_of col_results ''features'' of
        None \<Rightarrow> Inl KeyError
      | Some fv \<Rightarrow>
          (case py_iter fv of
             None \<Rightarrow> Inl TypeError
           | Some fs \<Rightarrow>
               (case map_of col_results ''numberOfRequests'' of
                  None \<Rightarrow> Inl KeyError
                | Some nreq \<Rightarrow>
                    (case as_int nreq of
                       None \<Rightarrow> Inl TypeError
                     | Some i \<Rightarrow>
                         (case map_of col_results ''numberReturned'' of
                            None \<Rightarrow> Inl KeyError
                          | Some nret \<Rightarrow>
                              (case as_int nret of
                                 None \<Rightarrow> Inl TypeError
                               | Some j \<Rightarrow>
                                   merge_collections results (features @ fs)
                                     (number_of_requests + i)
                                     (AList.update (py_str col) nreq requests_by)
                                     (number_returned + j)
                                     (AList.update (py_str col) nret returned_by)))))))"

text \<open>
  \<open>collection\<close> is the first positional parameter, a list of names; passing it again by
  keyword is a TypeError. \<open>hierarchical_output\<close> and \<open>use_latest_collection\<close> are taken
  from the keyword arguments, and \<open>hierarchical_output\<close> is passed on by name.
\<close>

definition multiple_collections_extension ::
  "'u callable \<Rightarrow> ('u \<Rightarrow> (py_exn + string list) \<times> 'u) \<Rightarrow> string \<Rightarrow> string list \<Rightarrow> 'u callable"
where
  "multiple_collections_extension func get_collections now collection kw w =
     (if kw_collection kw \<noteq> None then (Inl TypeError, w)
      else
        let hierarchical_output =
              (case kw_hierarchical_output kw of None \<Rightarrow> False | Some b \<Rightarrow> b);
            use_latest_collection =
              (case kw_use_latest_collection kw of None \<Rightarrow> False | Some b \<Rightarrow> b);
            kwargs = kw\<lparr>kw_hierarchical_output := None, kw_use_latest_collection := None\<rparr>
        in case (if use_latest_collection
                 then apply_latest_collection get_collections collection w
                 else (Inr (map JStr collection), w)) of
             (Inl e, w0) \<Rightarrow> (Inl e, w0)
           | (Inr new_collection, w0) \<Rightarrow>
               (case collection_loop func kwargs hierarchical_output new_collection [] w0 of
                  (Raise e, w') \<Rightarrow> (Inl e, w')
                | (Return r, w') \<Rightarrow> (Inr r, w')
                | (Normal results, w') \<Rightarrow>
                    if hierarchical_output
                    then (Inr (map (\<lambda>(col, r). (py_str col, JObj r)) results), w')
                    else
                      (case merge_collections results [] 0 [] 0 [] of
                         Inl e \<Rightarrow> (Inl e, w')
                       | Inr (features, number_of_requests, requests_by, number_returned, returned_by) \<Rightarrow>
                           (Inr [(''type'', JStr ''FeatureCollection''),
                                 (''numberOfRequests'', JInt number_of_requests),
                                 (''numberOfRequestsByCollection'', JObj requests_by),
                                 (''numberReturned'', JInt number_returned),
                                 (''numberReturnedByCollection'', JObj returned_by),
                                 (''features'', JList features),
                                 (''timeStamp'', JStr now)], w'))))"

section \<open>Auth decorator: \<open>oauth2_manager\<close>\<close>

text \<open>
  \<open>get_access_token\<close>. \<open>post\<close> is the request to the token endpoint with the client
  credentials: it raises (transport failure, undecodable body) or gives the status and the
  decoded body. Status 401 is a PermissionError; otherwise \<open>json_response["access_token"]\<close>
  is read.
\<close>

type_synonym 'u token_endpoint =
  "string option \<Rightarrow> string option \<Rightarrow> 'u \<Rightarrow> (py_exn + int \<times> json) \<times> 'u"

definition get_access_token ::
  "'u token_endpoint \<Rightarrow> string option \<Rightarrow> string option \<Rightarrow> 'u \<Rightarrow> (py_exn + json) \<times> 'u"
where
  "get_access_token post client_id client_secret u =
     (case post client_id client_secret u of
        (Inl e, u') \<Rightarrow> (Inl e, u')
      | (Inr (status_code, json_response), u') \<Rightarrow>
          if status_code = 401 then (Inl PermissionError, u')
          else
            (case json_response of
               JObj d \<Rightarrow>
                 (case map_of d ''access_token'' of
                    None \<Rightarrow> (Inl KeyError, u')
                  | Some token \<Rightarrow> (Inr token, u'))
             | _ \<Rightarrow> (Inl TypeError, u')))"

definition credentials_error :: dict where
  "credentials_error =
     [(''code'', JInt 401),
      (''description'', JStr ''Missing or invalid CLIENT_ID and/or CLIENT_SECRET. Make sure these are configured correctely in your environment variables.''),
      (''errorSource'', JStr ''Catalyst Wrapper'')]"

text \<open>\<open>response.get('code') != 401\<close>\<close>

definition code_is_401 :: "dict \<Rightarrow> bool" where
  "code_is_401 response =
     (case map_of response ''code'' of None \<Rightarrow> False | Some c \<Rightarrow> py_eq c (JInt 401))"

text \<open>
  The wrapper. Only \<open>PermissionError\<close> is caught around \<open>get_access_token\<close>. The token is
  stored with \<open>os.environ['ACCESS_TOKEN'] = access_token\<close>, which raises TypeError for a
  token that is not a string and ValueError for a string with a null character.
\<close>

definition oauth2_manager :: "'u callable \<Rightarrow> 'u token_endpoint \<Rightarrow> 'u callable" where
  "oauth2_manager func post kw w =
     (let (headers, w0) = copy_or_empty (kw_headers kw) w;
          kwargs' = kw\<lparr>kw_headers := Some headers\<rparr>;
          access_token = (case map_of (environ w0) ''ACCESS_TOKEN'' of None \<Rightarrow> [] | Some t \<Rightarrow> t);
          w1 = set_item headers ''Authorization'' (JStr (''Bearer '' @ access_token)) w0
      in case func kwargs' w1 of
           (Inl e, w2) \<Rightarrow> (Inl e, w2)
         | (Inr response, w2) \<Rightarrow>
             if \<not> code_is_401 response then (Inr response, w2)
             else
               let client_id = map_of (environ w2) ''CLIENT_ID'';
                   client_secret = map_of (environ w2) ''CLIENT_SECRET''
               in case get_access_token post client_id client_secret (upstream w2) of
                    (Inl e, u3) \<Rightarrow>
                      if e = PermissionError then (Inr credentials_error, w2\<lparr>upstream := u3\<rparr>)
                      else (Inl e, w2\<lparr>upstream := u3\<rparr>)
                  | (Inr token, u3) \<Rightarrow>
                      (case token of
                         JStr t \<Rightarrow>
                           if CHR 0x00 \<in> set t then (Inl ValueError, w2\<lparr>upstream := u3\<rparr>)
                           else
                             let w4 = w2\<lparr>upstream := u3,
                                         environ := AList.update ''ACCESS_TOKEN'' t (environ w2)\<rparr>;
                                 w5 = set_item headers ''Authorization'' (JStr (''Bearer '' @ t)) w4
                             in func kwargs' w5
                       | _ \<Rightarrow> (Inl TypeError, w2\<lparr>upstream := u3\<rparr>)))"

section \<open>Single-request fetcher: \<open>ngd_items_request\<close>\<close>



text \<open>The external collaborators: the GET request and the telemetry event.\<close>

record http_response =
  status_code :: int
  body :: "string + json"

















section \<open>Scenarios\<close>

text \<open>Concrete arguments, worlds and stand-ins for the wrapped function.\<close>

definition no_kwargs :: kwargs where
  "no_kwargs =
     \<lparr>kw_collection = None, kw_query_params = None, kw_filter_params = None,
      kw_headers = None, kw_wkt = None, kw_use_latest_collection = None,
      kw_add_metadata = None, kw_hierarchical_output = None, kw_limit = None,
      kw_request_limit = None\<rparr>"

definition empty_world :: "'u \<Rightarrow> 'u world" where
  "empty_world u = \<lparr>heap = [], environ = [], upstream = u\<rparr>"

text \<open>A wrapped function that answers every call with the same dictionary.\<close>

definition static_fetch :: "dict \<Rightarrow> 'u callable" where
  "static_fetch r kw w = (Inr r, w)"

text \<open>
  An upstream holding the features \<open>db\<close>: a request with \<open>offset\<close> and \<open>limit\<close> (at most
  100, and 100 when absent) is answered with that slice, and with a \<open>next\<close> link as long
  as features remain after it.
\<close>

definition page_response :: "json list \<Rightarrow> nat \<Rightarrow> nat \<Rightarrow> dict" where
  "page_response db off n =
     [(''type'', JStr ''FeatureCollection''),
      (''numberReturned'', JInt (int (length (take n (drop off db))))),
      (''features'', JList (take n (drop off db))),
      (''links'', JList (JObj [(''rel'', JStr ''self'')] #
                    (if off + n < length db then [JObj [(''rel'', JStr ''next'')]] else [])))]"

definition paged_items :: "json list \<Rightarrow> 'u callable" where
  "paged_items db kw w =
     (let q = (case kw_query_params kw of None \<Rightarrow> [] | Some a \<Rightarrow> deref w a);
          off = (case map_of q ''offset'' of Some (JInt i) \<Rightarrow> nat i | _ \<Rightarrow> 0);
          n = (case map_of q ''limit'' of Some (JInt i) \<Rightarrow> min (nat i) 100 | _ \<Rightarrow> 100)
      in (Inr (page_response db off n), w))"

text \<open>The calls recorded in a world, and the world with an empty record.\<close>

definition calls :: "('u \<times> call list) world \<Rightarrow> call list" where
  "calls w = snd (upstream w)"

definition fresh :: "'u world \<Rightarrow> ('u \<times> call list) world" where
  "fresh w = \<lparr>heap = heap w, environ = environ w, upstream = (upstream w, [])\<rparr>"

section \<open>Notions used in the statements\<close>

text \<open>The effective \<open>request_limit\<close> of a call (default 50) and the caller's query parameters.\<close>

definition request_limit_of :: "kwargs \<Rightarrow> int option" where
  "request_limit_of kw = (case kw_request_limit kw of None \<Rightarrow> Some 50 | Some rl \<Rightarrow> rl)"

definition caller_query :: "kwargs \<Rightarrow> 'u world \<Rightarrow> dict" where
  "caller_query kw w = (case kw_query_params kw of None \<Rightarrow> [] | Some a \<Rightarrow> deref w a)"

text \<open>
  A dictionary whose \<open>code\<close> is an integer of at least 400 (\<^term>\<open>has_error_code\<close>). The
  collection coordinator searches the \<open>description\<close> of a payload with code 404 for a
  phrase, which needs a string, a list or an object there (\<^term>\<open>readable_error\<close>).
\<close>

definition has_error_code :: "dict \<Rightarrow> bool" where
  "has_error_code e = (case map_of e ''code'' of Some (JInt c) \<Rightarrow> 400 \<le> c | _ \<Rightarrow> False)"

definition readable_error :: "dict \<Rightarrow> bool" where
  "readable_error e =
     (has_error_code e \<and>
      (map_of e ''code'' = Some (JInt 404) \<longrightarrow>
         (case map_of e ''description'' of
            Some (JStr s) \<Rightarrow> True | Some (JList xs) \<Rightarrow> True | Some (JObj d) \<Rightarrow> True
          | _ \<Rightarrow> False)))"

text \<open>The result of a recorded call.\<close>

definition call_result :: "call \<Rightarrow> py_exn + dict" where
  "call_result c = snd (snd c)"

text \<open>\<open>numberReturned\<close> equals the number of features.\<close>

definition number_returned_ok :: "dict \<Rightarrow> bool" where
  "number_returned_ok r =
     (case (map_of r ''features'', map_of r ''numberReturned'') of
        (Some fv, Some n) \<Rightarrow>
          (case (py_iter fv, as_int n) of
             (Some fs, Some i) \<Rightarrow> i = int (length fs)
           | _ \<Rightarrow> False)
      | _ \<Rightarrow> False)"

text \<open>
  A collaborator that works on the outside state alone, lifted to an outside state that
  carries the record of calls: it leaves the record as it is.
\<close>

definition unlogged :: "('u \<Rightarrow> 'a \<times> 'u) \<Rightarrow> 'u \<times> call list \<Rightarrow> 'a \<times> ('u \<times> call list)" where
  "unlogged f = (\<lambda>(u, log). case f u of (r, u') \<Rightarrow> (r, (u', log)))"

text \<open>
  In a list of recorded calls, no call before the last one returned a dictionary that
  \<open>err\<close> holds of.
\<close>

definition quiet_prefix_by :: "(dict \<Rightarrow> bool) \<Rightarrow> call list \<Rightarrow> bool" where
  "quiet_prefix_by err new =
     (\<forall>c\<in>set (butlast new). \<forall>e. call_result c = Inr e \<longrightarrow> \<not> err e)"

text \<open>Sample data: 250 features, an empty page, and an error payload of the upstream.\<close>

definition sample_db :: "json list" where
  "sample_db = map (\<lambda>i. JObj [(''id'', JInt (int i)), (''properties'', JObj [])]) [0..<250]"

definition empty_page :: dict where
  "empty_page =
     [(''type'', JStr ''FeatureCollection''), (''numberReturned'', JInt 0),
      (''features'', JList []), (''links'', JList []), (''numberOfRequests'', JInt 1)]"





text \<open>A parser that knows one multipolygon of two parts, and a catalogue request.\<close>

definition two_parts :: geom where
  "two_parts = Multi ''MULTIPOLYGON (A, B)'' [Single ''POLYGON A'', Single ''POLYGON B'']"

definition parse_two_parts :: "string \<Rightarrow> geom option" where
  "parse_two_parts s = (if s = ''MULTIPOLYGON (A, B)'' then Some two_parts else None)"

definition sample_catalogue :: "'u \<Rightarrow> (py_exn + string list) \<times> 'u" where
  "sample_catalogue u =
     (Inr [''bld-fts-buildingline-1'', ''bld-fts-buildingline-2'', ''trn-ntwk-street-1''], u)"

text \<open>A caller whose query parameters carry an \<open>offset\<close>.\<close>

definition offset_world :: "unit world" where
  "offset_world = \<lparr>heap = [[(''offset'', JInt 5)]], environ = [], upstream = ()\<rparr>"

text \<open>
  The identity key of a feature (its \<open>id\<close>, up to \<open>==\<close>), of a feature given as a value,
  and the features of a response.
\<close>

definition feature_key :: "dict \<Rightarrow> json" where
  "feature_key f = (case map_of f ''id'' of Some v \<Rightarrow> py_norm v | None \<Rightarrow> JNull)"

fun json_key :: "json \<Rightarrow> json" where
  "json_key (JObj d) = feature_key d"
| "json_key v = JNull"

definition response_features :: "dict \<Rightarrow> json list" where
  "response_features r =
     (case map_of r ''features'' of
        Some v \<Rightarrow> (case py_iter v of Some fs \<Rightarrow> fs | None \<Rightarrow> [])
      | None \<Rightarrow> [])"

text \<open>
  The search areas as the geometry wrapper hands them to \<open>flatten_search_areas\<close>: the
  responses of the parts, numbered from \<open>i\<close> under \<open>searchAreaNumber\<close>.
\<close>

fun number_areas :: "nat \<Rightarrow> dict list \<Rightarrow> dict list" where
  "number_areas i [] = []"
| "number_areas i (r # rs) =
     AList.update ''searchAreaNumber'' (JInt (int i)) r # number_areas (Suc i) rs"

text \<open>
  Every returned feature with the number of the part that returned it, in the order of
  processing; the parts that returned the key \<open>x\<close>; and how a feature's
  \<open>searchAreaNumber\<close> records them: a scalar for one part, a list for several.
\<close>

fun seen_from :: "nat \<Rightarrow> dict list \<Rightarrow> (json \<times> int) list" where
  "seen_from i [] = []"
| "seen_from i (r # rs) =
     map (\<lambda>f. (json_key f, int i)) (response_features r) @ seen_from (Suc i) rs"

definition parts_of :: "json \<Rightarrow> (json \<times> int) list \<Rightarrow> int list" where
  "parts_of x seen = map snd (filter (\<lambda>p. fst p = x) seen)"

fun occ_encode :: "int list \<Rightarrow> json" where
  "occ_encode [i] = JInt i"
| "occ_encode parts = JList (map JInt parts)"

text \<open>The \<open>numberOfRequests\<close> of a response.\<close>

definition requests_of :: "dict \<Rightarrow> int" where
  "requests_of r = (case map_of r ''numberOfRequests'' of Some v \<Rightarrow> (case as_int v of Some i \<Rightarrow> i | None \<Rightarrow> 0) | None \<Rightarrow> 0)"

text \<open>
  The state of the merge after the features \<open>seen\<close>: \<open>ids\<close> lists the keys of the merged
  features \<open>fs\<close>, which are pairwise different and are the keys seen, and every merged
  feature records the parts that returned its key.
\<close>

definition merged :: "(json \<times> int) list \<Rightarrow> json list \<Rightarrow> dict list \<Rightarrow> bool" where
  "merged seen ids fs =
     (map py_norm ids = map feature_key fs \<and>
      (\<forall>f\<in>set fs. map_of f ''id'' \<noteq> None) \<and>
      distinct (map feature_key fs) \<and>
      set (map feature_key fs) = fst ` set seen \<and>
      (\<forall>i<length fs. map_of (fs ! i) ''searchAreaNumber''
          = Some (occ_encode (parts_of (feature_key (fs ! i)) seen))))"

text \<open>
  Two parts that share the feature \<open>a\<close>, and the flattened result expected for them.
\<close>

definition sample_feature :: "string \<Rightarrow> json" where
  "sample_feature x = JObj [(''id'', JStr x), (''properties'', JObj [])]"

definition part_a :: dict where
  "part_a = [(''features'', JList [sample_feature ''a'', sample_feature ''b'']),
             (''numberReturned'', JInt 2), (''numberOfRequests'', JInt 1)]"

definition part_b :: dict where
  "part_b = [(''features'', JList [sample_feature ''a'', sample_feature ''c'']),
             (''numberReturned'', JInt 2), (''numberOfRequests'', JInt 2)]"

definition sample_parts :: "dict list" where
  "sample_parts = [part_a, part_b]"

text \<open>A wrapped function that answers the first search area with \<open>part_a\<close>, any other with \<open>part_b\<close>.\<close>

definition parts_fetch :: "'u callable" where
  "parts_fetch kw w =
     (if kw_wkt kw = Some (WktGeom (Single ''POLYGON A'')) then (Inr part_a, w) else (Inr part_b, w))"

definition flat_feature :: "string \<Rightarrow> json \<Rightarrow> json \<Rightarrow> json" where
  "flat_feature x n p =
     JObj [(''id'', JStr x), (''properties'', JObj [(''searchAreaNumber'', p)]),
           (''searchAreaNumber'', n)]"

definition sample_flat :: dict where
  "sample_flat =
     [(''type'', JStr ''FeatureCollection''),
      (''numberOfRequests'', JInt 3),
      (''numberReturned'', JInt 3),
      (''features'', JList [flat_feature ''a'' (JList [JInt 0, JInt 1]) (JInt 0),
                            flat_feature ''b'' (JInt 0) (JInt 0),
                            flat_feature ''c'' (JInt 1) (JInt 1)]),
      (''timeStamp'', JStr ''t'')]"

text \<open>
  An upstream that knows the collection \<open>bld-fts-buildingline-2\<close> and answers any other
  collection with its own 404 payload; and a request that asks for an unresolvable base
  name after a versioned one.
\<close>

definition unknown_collection :: dict where
  "unknown_collection =
     [(''code'', JInt 404),
      (''description'', JStr ''Collection is not a supported Collection. Please refer to the documentation for a list of supported Collections.''),
      (''errorSource'', JStr ''OS NGD API'')]"

definition known_collection_fetch :: "'u callable" where
  "known_collection_fetch kw w =
     (if kw_collection kw = Some (JStr ''bld-fts-buildingline-2'') then (Inr part_a, w)
      else (Inr unknown_collection, w))"

definition latest_kwargs :: kwargs where
  "latest_kwargs = no_kwargs\<lparr>kw_use_latest_collection := Some True\<rparr>"

text \<open>
  Token endpoints: one that rejects the credentials with status 401, one that grants the
  token \<open>t\<close>, and one that fails with status 500 and no token.
\<close>

definition rejecting_endpoint :: "'u token_endpoint" where
  "rejecting_endpoint client_id client_secret u =
     (Inr (401, JObj [(''error'', JStr ''invalid_client'')]), u)"



text \<open>The payload of an upstream that does not accept the token.\<close>

definition unauthorized :: dict where
  "unauthorized =
     [(''code'', JInt 401), (''description'', JStr ''Unauthorized''), (''errorSource'', JStr ''OS NGD API'')]"



text \<open>
  The dictionaries at the addresses below \<open>n\<close> are the same in both worlds. With \<open>n\<close> the
  number of dictionaries of the first world, these are all dictionaries that existed in it.
\<close>

definition unchanged_below :: "nat \<Rightarrow> 'u world \<Rightarrow> 'u world \<Rightarrow> bool" where
  "unchanged_below n w w' = (take n (heap w') = take n (heap w))"

text \<open>
  The three mappings that a caller may supply, with their contents in a world, and the
  condition that each one supplied is a dictionary of that world.
\<close>

definition caller_mappings :: "kwargs \<Rightarrow> 'u world \<Rightarrow> dict option list" where
  "caller_mappings kw w =
     map (map_option (deref w)) [kw_query_params kw, kw_filter_params kw, kw_headers kw]"


text \<open>
  A caller with the three mappings, and collaborators of the fetcher that answer every
  request with an empty page and record nothing.
\<close>

definition caller_world :: "unit world" where
  "caller_world =
     \<lparr>heap = [[(''crs'', JInt 27700)], [], [(''host'', JStr ''localhost'')]],
      environ = [], upstream = ()\<rparr>"

definition caller_kwargs :: kwargs where
  "caller_kwargs =
     no_kwargs\<lparr>kw_collection := Some (JStr ''bld-fts-buildingline-2''), kw_query_params := Some 0,
               kw_filter_params := Some 1, kw_headers := Some 2,
               kw_wkt := Some (WktText ''POLYGON A'')\<rparr>"





text \<open>
  A record of what a decorator did with its two collaborators, in order: the calls of the
  wrapped function, and the requests to the token endpoint with the credentials sent and
  the answer. \<^term>\<open>traced func\<close> and \<^term>\<open>traced_endpoint post\<close> behave as \<open>func\<close> and
  \<open>post\<close> and append to that record, which neither of them can read or write.
\<close>

datatype event = Fetched call | Refreshed "string option" "string option" "py_exn + int \<times> json"

definition traced :: "'u callable \<Rightarrow> ('u \<times> event list) callable" where
  "traced func kw w =
     (case func kw \<lparr>heap = heap w, environ = environ w, upstream = fst (upstream w)\<rparr> of
        (r, w') \<Rightarrow>
          (r, \<lparr>heap = heap w', environ = environ w',
                upstream = (upstream w', snd (upstream w) @ [Fetched (kw, heap w, r)])\<rparr>))"


definition events :: "('u \<times> event list) world \<Rightarrow> event list" where
  "events w = snd (upstream w)"

definition untraced :: "'u world \<Rightarrow> ('u \<times> event list) world" where
  "untraced w = \<lparr>heap = heap w, environ = environ w, upstream = (upstream w, [])\<rparr>"




text \<open>
  A wrapped function that writes into the \<open>filter_params\<close> it is given
  (\<open>filter_params['seen'] = True\<close>) and answers with an empty page.
\<close>

definition meddling_fetch :: "'u callable" where
  "meddling_fetch kw w =
     (Inr empty_page,
      (case kw_filter_params kw of None \<Rightarrow> w | Some a \<Rightarrow> set_item a ''seen'' (JBool True) w))"

text \<open>The id that a result of the version resolver maps a base name to.\<close>

definition resolved :: "py_exn + (string \<times> string) list \<Rightarrow> string \<Rightarrow> string option" where
  "resolved r base_name = (case r of Inl e \<Rightarrow> None | Inr lookup \<Rightarrow> map_of lookup base_name)"

section \<open>Properties\<close>

subsection \<open>Filter builder\<close>

lemma construct_filter_param_flask_empty: "construct_filter_param_flask [] = []"
  by (simp add: construct_filter_param_flask_def filter_list_def)

lemma construct_filter_param_flask_join:
  "construct_filter_param_flask params =
     str_join ''and''
       (map (\<lambda>(k, v). ''('' @ k @ ''='' @ (case v of JStr s \<Rightarrow> quote s | _ \<Rightarrow> py_repr v) @ '')'') params)"
  unfolding construct_filter_param_flask_def filter_list_def
  by (rule arg_cong [where f = "str_join ''and''"])
     (auto simp: quote_if_str_def py_str_def split: json.splits)

lemma construct_filter_param_empty: "construct_filter_param [] = Inr []"
  by (simp add: construct_filter_param_def filter_list_def)

lemma construct_filter_param_raises:
  "params \<noteq> [] \<Longrightarrow> construct_filter_param params = Inl TypeError"
  by (cases params) (auto simp: construct_filter_param_def)

text \<open>
  C5. The filter builder is to map \<open>{oslandcovertierb: "Water"}\<close> to
  \<open>(oslandcovertierb='Water')\<close>. The variant under \<open>src/app_flask\<close> returns that string;
  the variant under \<open>src/Azure\<close> raises TypeError on this input, because its test
  \<open>isinstance(str, v)\<close> has the arguments the wrong way round. (The lemmas above: the
  Azure variant raises for every non-empty mapping and returns the empty string for the
  empty one; the flask variant joins the \<open>(key=value)\<close> predicates with \<open>and\<close>.)
\<close>

theorem construct_filter_param_water:
  "construct_filter_param [(''oslandcovertierb'', JStr ''Water'')] = Inl TypeError
   \<and> construct_filter_param_flask [(''oslandcovertierb'', JStr ''Water'')]
       = ''(oslandcovertierb='Water')''"
  by (simp add: construct_filter_param_def construct_filter_param_flask_def filter_list_def
        quote_if_str_def py_str_def quote_def)

subsection \<open>Heap\<close>

lemma upstream_copy_or_empty [simp]: "upstream (snd (copy_or_empty p w)) = upstream w"
  by (simp add: copy_or_empty_def alloc_def split: option.splits)

lemma fst_copy_or_empty [simp]: "fst (copy_or_empty p w) = length (heap w)"
  by (simp add: copy_or_empty_def alloc_def split: option.splits)

lemma copy_or_empty_eq: "copy_or_empty p w = (length (heap w), snd (copy_or_empty p w))"
  by (metis fst_copy_or_empty prod.collapse)

lemma deref_copy_or_empty [simp]:
  "deref (snd (copy_or_empty p w)) (length (heap w)) = (case p of None \<Rightarrow> [] | Some a \<Rightarrow> deref w a)"
  by (simp add: copy_or_empty_def alloc_def deref_def split: option.splits)

subsection \<open>Error codes\<close>

lemma code_is_error_iff: "code_is_error e = Inr True \<longleftrightarrow> has_error_code e"
  by (auto simp: code_is_error_def has_error_code_def split: option.splits json.splits if_splits)

lemma has_error_code_code: "has_error_code e \<Longrightarrow> map_of e ''code'' \<noteq> None"
  by (auto simp: has_error_code_def split: option.splits)

lemma read_page_Return: "read_page r = Return r' \<Longrightarrow> r' = r \<and> has_error_code r"
  by (auto simp: read_page_def code_is_error_iff [symmetric] split: sum.splits bool.splits option.splits)



subsection \<open>Pagination\<close>

lemma limit_extension_unfold:
  "limit_extension func now kw w =
     (let w0 = snd (copy_or_empty (kw_query_params kw) w); qp = length (heap w);
          kwargs = kw\<lparr>kw_request_limit := None, kw_limit := None, kw_query_params := None\<rparr>
      in if map_of (caller_query kw w) ''offset'' \<noteq> None then Some (Inr offset_error, w0)
         else if not_int (kw_limit kw) \<and> not_int (request_limit_of kw) then Some (Inl AttributeError, w0)
         else
           (case limit_loop func kwargs (request_limit_of kw) (kw_limit kw) qp 0 0 [] w0 of
              None \<Rightarrow> None
            | Some (Raise e, w') \<Rightarrow> Some (Inl e, w')
            | Some (Return r, w') \<Rightarrow> Some (Inr r, w')
            | Some (Normal (request_count, features), w') \<Rightarrow>
                Some (Inr [(''type'', JStr ''FeatureCollection''),
                           (''numberOfRequests'', JInt request_count),
                           (''numberReturned'', JInt (int (length features))),
                           (''timeStamp'', JStr now),
                           (''collection'', (case kw_collection kw of None \<Rightarrow> JNull | Some c \<Rightarrow> c)),
                           (''features'', JList features)], w')))"
  unfolding limit_extension_def Let_def
  by (subst copy_or_empty_eq)
     (simp add: caller_query_def request_limit_of_def
        cong: option.case_cong flow.case_cong prod.case_cong)

lemma limit_loop_Return:
  assumes "limit_loop func kwargs rl lim qp rc off feats w = Some y"
  shows "\<forall>r. fst y = Return r \<longrightarrow> has_error_code r"
  using assms
proof (induct rule: limit_loop.raw_induct [rotated 1, consumes 1])
  case (1 loop func kwargs rl lim qp rc off feats w y)
  then show ?case
    by (auto simp: Let_def split: if_splits prod.splits sum.splits flow.splits dest: read_page_Return)
qed

text \<open>
  C6, as amended. When the caller's query parameters contain \<open>offset\<close>, the
  pagination coordinator returns the payload with code 400; the world is changed only by
  the private copy of the query parameters, so nothing was sent upstream, whatever the
  wrapped function is. When \<open>offset\<close> is not supplied and both \<open>limit\<close> and
  \<open>request_limit\<close> are absent (\<open>None\<close>, or 0), the call raises AttributeError, again
  before anything is sent upstream: this failure is an exception, not a returned payload.
\<close>

theorem limit_extension_validation:
  "(map_of (caller_query kw w) ''offset'' \<noteq> None \<longrightarrow>
      limit_extension func now kw w = Some (Inr offset_error, snd (copy_or_empty (kw_query_params kw) w))
      \<and> map_of offset_error ''code'' = Some (JInt 400))
   \<and> (map_of (caller_query kw w) ''offset'' = None \<and> not_int (kw_limit kw) \<and> not_int (request_limit_of kw) \<longrightarrow>
      limit_extension func now kw w = Some (Inl AttributeError, snd (copy_or_empty (kw_query_params kw) w)))"
  by (simp add: limit_extension_unfold offset_error_def)

lemma number_returned_limit:
  assumes "limit_extension func now kw w = Some (Inr r, w')" and "map_of r ''code'' = None"
  shows "\<exists>fs. map_of r ''features'' = Some (JList fs) \<and> map_of r ''numberReturned'' = Some (JInt (int (length fs)))"
  using assms
  by (auto simp: limit_extension_unfold Let_def offset_error_def
      split: if_splits option.splits prod.splits flow.splits
      dest!: limit_loop_Return dest: has_error_code_code)

lemma logged_calls:
  "logged func kw w = (r, w') \<Longrightarrow> calls w' = calls w @ [(kw, heap w, r)]"
  by (auto simp: logged_def calls_def split: prod.splits)

lemma calls_set_item [simp]: "calls (set_item a k v w) = calls w"
  by (simp add: calls_def set_item_def)

lemma quiet_prefix_by_Nil [simp]: "quiet_prefix_by err []"
  and quiet_prefix_by_single [simp]: "quiet_prefix_by err [c]"
  by (simp_all add: quiet_prefix_by_def)

lemma quiet_prefix_by_Cons:
  "quiet_prefix_by err new \<Longrightarrow> (\<And>e. call_result c = Inr e \<Longrightarrow> \<not> err e) \<Longrightarrow> quiet_prefix_by err (c # new)"
  by (auto simp: quiet_prefix_by_def)



lemma heap_fresh [simp]: "heap (fresh w) = heap w"
  and environ_fresh [simp]: "environ (fresh w) = environ w"
  and calls_fresh [simp]: "calls (fresh w) = []"
  by (simp_all add: fresh_def calls_def)

lemma caller_query_fresh [simp]: "caller_query kw (fresh w) = caller_query kw w"
  by (simp add: caller_query_def deref_def split: option.splits)

lemma three_pages:
  assumes "length db = 250"
  shows "take 100 db @ take 100 (drop 100 db) @ take 50 (drop 200 db) = db"
proof -
  have "take 200 db = take 100 db @ take 100 (drop 100 db)"
    using take_add [of 100 100 db] by simp
  moreover have "take 250 db = take 200 db @ take 50 (drop 200 db)"
    using take_add [of 200 50 db] by simp
  ultimately show ?thesis using assms by simp
qed

lemma copy_or_empty_fresh:
  "snd (copy_or_empty (kw_query_params kw) (fresh w)) =
     \<lparr>heap = heap w @ [caller_query kw w], environ = environ w, upstream = (upstream w, [])\<rparr>"
  by (simp add: copy_or_empty_def alloc_def fresh_def caller_query_def deref_def split: option.splits)

lemma read_page_page_response:
  "read_page (page_response db off n) = Normal (take n (drop off db), off + n < length db)"
  by (simp add: read_page_def page_response_def code_is_error_def py_eq_def)

lemma paged_step:
  assumes "length H = a"
  shows "logged (paged_items db) (k\<lparr>kw_query_params := Some a\<rparr>)
           \<lparr>heap = H @ [q], environ = E, upstream = (u, log)\<rparr> =
         (Inr (page_response db
                 (case map_of q ''offset'' of Some (JInt i) \<Rightarrow> nat i | _ \<Rightarrow> 0)
                 (case map_of q ''limit'' of Some (JInt i) \<Rightarrow> min (nat i) 100 | _ \<Rightarrow> 100)),
          \<lparr>heap = H @ [q], environ = E,
            upstream = (u, log @ [(k\<lparr>kw_query_params := Some a\<rparr>, H @ [q],
               Inr (page_response db
                 (case map_of q ''offset'' of Some (JInt i) \<Rightarrow> nat i | _ \<Rightarrow> 0)
                 (case map_of q ''limit'' of Some (JInt i) \<Rightarrow> min (nat i) 100 | _ \<Rightarrow> 100)))])\<rparr>)"
  using assms by (auto simp: logged_def paged_items_def deref_def Let_def)

lemma set_item_last:
  "length H = a \<Longrightarrow>
   set_item a k v \<lparr>heap = H @ [q], environ = E, upstream = U\<rparr> =
     \<lparr>heap = H @ [AList.update k v q], environ = E, upstream = U\<rparr>"
  by (auto simp: set_item_def deref_def)

text \<open>
  C1. Against an upstream holding 250 features, which answers with pages of at most 100
  features and a \<open>next\<close> link while features remain, a call with \<open>limit = 250\<close> (the
  default \<open>request_limit\<close>, and query parameters without \<open>offset\<close> and \<open>limit\<close>) makes
  exactly three requests, with offsets 0, 100 and 200; the third request, and only the
  third, carries \<open>limit = 50\<close>. The result holds the 250 features, \<open>numberReturned\<close> 250,
  \<open>numberOfRequests\<close> 3, and has no \<open>offset\<close> key.
\<close>

theorem pagination_250:
  assumes db: "length db = 250"
    and kw: "kw_limit kw = Some 250" "kw_request_limit kw = None" "kw_add_metadata kw = None"
    and q: "map_of (caller_query kw w) ''offset'' = None" "map_of (caller_query kw w) ''limit'' = None"
  shows "\<exists>r w'. limit_extension (logged (paged_items db)) now kw (fresh w) = Some (Inr r, w')
           \<and> length (calls w') = 3
           \<and> map_of r ''numberOfRequests'' = Some (JInt 3)
           \<and> map_of r ''features'' = Some (JList db)
           \<and> map_of r ''numberReturned'' = Some (JInt 250)
           \<and> map (\<lambda>c. map_of (sent_query c) ''offset'') (calls w') = [Some (JInt 0), Some (JInt 100), Some (JInt 200)]
           \<and> map (\<lambda>c. map_of (sent_query c) ''limit'') (calls w') = [None, None, Some (JInt 50)]
           \<and> map_of r ''offset'' = None"
proof -
  define q0 where "q0 = caller_query kw w"
  define H where "H = heap w"
  define k where "k = kw\<lparr>kw_request_limit := None, kw_limit := None, kw_query_params := None\<rparr>"
  have k: "kw_add_metadata k = None" by (simp add: k_def kw)
  have kk: "k\<lparr>kw_query_params := Some (length H), kw_add_metadata := Some False\<rparr>
        = (k\<lparr>kw_add_metadata := Some False\<rparr>)\<lparr>kw_query_params := Some (length H)\<rparr>"
    by simp
  note step = paged_step [OF refl, where db = db and k = "k\<lparr>kw_add_metadata := Some False\<rparr>" and H = H]
  have feats: "take 100 db @ take 100 (drop 100 db) @ take 50 (drop 200 db) = db"
    by (rule three_pages [OF db])
  have "limit_loop (logged (paged_items db)) k (Some 50) (Some 250) (length H) 0 0 []
          \<lparr>heap = H @ [q0], environ = environ w, upstream = (upstream w, [])\<rparr>
        = Some (Normal (3, db), 
            \<lparr>heap = H @ [AList.update ''offset'' (JInt 200) (AList.update ''limit'' (JInt 50)
                 (AList.update ''offset'' (JInt 100) (AList.update ''offset'' (JInt 0) q0)))],
             environ = environ w,
             upstream = (upstream w,
               [(k\<lparr>kw_query_params := Some (length H), kw_add_metadata := Some False\<rparr>,
                   H @ [AList.update ''offset'' (JInt 0) q0], Inr (page_response db 0 100)),
                (k\<lparr>kw_query_params := Some (length H), kw_add_metadata := Some False\<rparr>,
                   H @ [AList.update ''offset'' (JInt 100) (AList.update ''offset'' (JInt 0) q0)], Inr (page_response db 100 100)),
                (k\<lparr>kw_query_params := Some (length H), kw_add_metadata := Some False\<rparr>,
                   H @ [AList.update ''offset'' (JInt 200) (AList.update ''limit'' (JInt 50)
                 (AList.update ''offset'' (JInt 100) (AList.update ''offset'' (JInt 0) q0)))], Inr (page_response db 200 50))])\<rparr>)"
    apply (subst limit_loop.simps)
    apply (simp add: not_int_def Let_def k set_item_last kk step update_conv' q [folded q0_def]
        read_page_page_response db del: kwargs.update_convs)
    apply (subst limit_loop.simps)
    apply (simp add: not_int_def Let_def k set_item_last kk step update_conv' q [folded q0_def]
        read_page_page_response db)
    apply (subst limit_loop.simps)
    apply (simp add: not_int_def Let_def k set_item_last kk step update_conv' q [folded q0_def]
        read_page_page_response db)
    using feats db apply simp
    done
  then show ?thesis
    using kw q db
    by (simp add: limit_extension_unfold request_limit_of_def not_int_def Let_def
        copy_or_empty_fresh q0_def [symmetric] H_def [symmetric] k_def [symmetric]
        calls_def sent_query_def update_conv')
qed


lemma readable_error_collection_error: "readable_error e \<Longrightarrow> collection_error e = Inr True"
  by (auto simp: readable_error_def has_error_code_def collection_error_def py_eq_def Let_def
      split: option.splits json.splits bool.splits)

lemma collection_loop_log:
  "collection_loop (logged func) kwargs h cols results w = (fl, w') \<Longrightarrow>
   \<exists>new. calls w' = calls w @ new \<and> quiet_prefix_by readable_error new \<and>
     (\<forall>e. new \<noteq> [] \<and> call_result (last new) = Inr e \<and> readable_error e \<longrightarrow> fl = Return e)"
proof (induction cols arbitrary: results w)
  case Nil
  then show ?case by (intro exI [of _ "[]"]) simp
next
  case (Cons col cols)
  let ?k = "kwargs\<lparr>kw_collection := Some col, kw_hierarchical_output := Some h\<rparr>"
  obtain r w1 where call: "logged func ?k w = (r, w1)" by force
  let ?c = "(?k, heap w, r)"
  have cw1: "calls w1 = calls w @ [?c]" using logged_calls [OF call] .
  show ?case
  proof (cases r)
    case (Inl e)
    with Cons.prems call have "fl = Raise e" "w' = w1" by auto
    then show ?thesis using cw1 Inl by (intro exI [of _ "[?c]"]) (simp add: call_result_def)
  next
    case (Inr j)
    show ?thesis
    proof (cases "collection_error j")
      case (Inl e)
      with Cons.prems call Inr have "fl = Raise e" "w' = w1" by auto
      moreover have "\<not> readable_error j" using Inl readable_error_collection_error [of j] by auto
      ultimately show ?thesis using cw1 Inr by (intro exI [of _ "[?c]"]) (simp add: call_result_def)
    next
      case (Inr b)
      show ?thesis
      proof (cases b)
        case True
        with Cons.prems call \<open>r = Inr j\<close> Inr have "fl = Return j" "w' = w1" by auto
        then show ?thesis using cw1 \<open>r = Inr j\<close> by (intro exI [of _ "[?c]"]) (simp add: call_result_def)
      next
        case False
        with Inr have quiet: "\<not> readable_error j" using readable_error_collection_error [of j] by auto
        show ?thesis
        proof (cases "hashable col")
          case nh: False
          with Cons.prems call \<open>r = Inr j\<close> Inr False have "fl = Raise TypeError" "w' = w1" by auto
          then show ?thesis using cw1 \<open>r = Inr j\<close> quiet
            by (intro exI [of _ "[?c]"]) (simp add: call_result_def)
        next
          case True
          with Cons.prems call \<open>r = Inr j\<close> Inr False
          have "collection_loop (logged func) kwargs h cols (results_update col j results) w1 = (fl, w')"
            by simp
          from Cons.IH [OF this] obtain new where
            new: "calls w' = calls w1 @ new" "quiet_prefix_by readable_error new"
              "\<forall>e. new \<noteq> [] \<and> call_result (last new) = Inr e \<and> readable_error e \<longrightarrow> fl = Return e"
            by blast
          have "calls w' = calls w @ (?c # new)" using new(1) cw1 by simp
          moreover have "quiet_prefix_by readable_error (?c # new)"
            using new(2) quiet \<open>r = Inr j\<close> by (intro quiet_prefix_by_Cons) (auto simp: call_result_def)
          moreover have "\<forall>e. ?c # new \<noteq> [] \<and> call_result (last (?c # new)) = Inr e \<and> readable_error e
              \<longrightarrow> fl = Return e"
            using new(3) quiet \<open>r = Inr j\<close> by (auto simp: call_result_def)
          ultimately show ?thesis by blast
        qed
      qed
    qed
  qed
qed

lemma calls_copy_or_empty [simp]: "calls (snd (copy_or_empty p w)) = calls w"
  by (simp add: calls_def)









text \<open>Both cases of C6 occur: a caller with \<open>offset\<close> set, and a caller without any limit.\<close>

theorem limit_extension_validation_witness:
  "map_of (caller_query (no_kwargs\<lparr>kw_query_params := Some 0\<rparr>) offset_world) ''offset'' \<noteq> None
   \<and> limit_extension (static_fetch empty_page) ''t'' (no_kwargs\<lparr>kw_query_params := Some 0\<rparr>) offset_world
       = Some (Inr offset_error, snd (copy_or_empty (Some 0) offset_world))
   \<and> map_of (caller_query (no_kwargs\<lparr>kw_request_limit := Some None\<rparr>) (empty_world ())) ''offset'' = None
   \<and> not_int (kw_limit (no_kwargs\<lparr>kw_request_limit := Some None\<rparr>))
   \<and> not_int (request_limit_of (no_kwargs\<lparr>kw_request_limit := Some None\<rparr>))
   \<and> limit_extension (static_fetch empty_page) ''t'' (no_kwargs\<lparr>kw_request_limit := Some None\<rparr>) (empty_world ())
       = Some (Inl AttributeError, snd (copy_or_empty None (empty_world ())))"
proof -
  have a: "map_of (caller_query (no_kwargs\<lparr>kw_query_params := Some 0\<rparr>) offset_world) ''offset'' \<noteq> None"
    by (simp add: caller_query_def no_kwargs_def offset_world_def deref_def)
  have b: "map_of (caller_query (no_kwargs\<lparr>kw_request_limit := Some None\<rparr>) (empty_world ())) ''offset'' = None
     \<and> not_int (kw_limit (no_kwargs\<lparr>kw_request_limit := Some None\<rparr>))
     \<and> not_int (request_limit_of (no_kwargs\<lparr>kw_request_limit := Some None\<rparr>))"
    by (simp add: caller_query_def no_kwargs_def not_int_def request_limit_of_def)
  show ?thesis
    using a b
      limit_extension_validation [of "no_kwargs\<lparr>kw_query_params := Some 0\<rparr>" offset_world
        "static_fetch empty_page" "''t''"]
      limit_extension_validation [of "no_kwargs\<lparr>kw_request_limit := Some None\<rparr>" "empty_world ()"
        "static_fetch empty_page" "''t''"]
    by (simp add: no_kwargs_def)
qed

text \<open>
  C6 as stated fails: with \<open>limit\<close> and \<open>request_limit\<close> both \<open>None\<close> the coordinator
  does not return an ErrorPayload, it raises AttributeError across its boundary.
\<close>

theorem limit_extension_absent_limits_raise:
  "limit_extension (static_fetch empty_page) ''t'' (no_kwargs\<lparr>kw_request_limit := Some None\<rparr>)
     (empty_world ()) = Some (Inl AttributeError, \<lparr>heap = [[]], environ = [], upstream = ()\<rparr>)"
  by (simp add: limit_extension_unfold no_kwargs_def empty_world_def caller_query_def
      request_limit_of_def not_int_def copy_or_empty_def alloc_def)

lemma length_sample_db: "length sample_db = 250"
  by (simp add: sample_db_def)

text \<open>The scenario of C1 with 250 concrete features and no other arguments.\<close>

theorem pagination_250_witness:
  "length sample_db = 250
   \<and> kw_limit (no_kwargs\<lparr>kw_limit := Some 250\<rparr>) = Some 250
   \<and> (\<exists>r w'. limit_extension (logged (paged_items sample_db)) ''t'' (no_kwargs\<lparr>kw_limit := Some 250\<rparr>)
                 (fresh (empty_world ())) = Some (Inr r, w')
           \<and> length (calls w') = 3
           \<and> map_of r ''numberOfRequests'' = Some (JInt 3)
           \<and> map_of r ''features'' = Some (JList sample_db)
           \<and> map_of r ''numberReturned'' = Some (JInt 250)
           \<and> map (\<lambda>c. map_of (sent_query c) ''offset'') (calls w') = [Some (JInt 0), Some (JInt 100), Some (JInt 200)]
           \<and> map (\<lambda>c. map_of (sent_query c) ''limit'') (calls w') = [None, None, Some (JInt 50)]
           \<and> map_of r ''offset'' = None)"
  using pagination_250 [of sample_db "no_kwargs\<lparr>kw_limit := Some 250\<rparr>" "empty_world ()" "''t''"]
  by (simp add: length_sample_db no_kwargs_def caller_query_def)







subsection \<open>Flattening the search areas\<close>

lemma py_in_iff: "py_in x xs \<longleftrightarrow> py_norm x \<in> set (map py_norm xs)"
  by (auto simp: py_in_def py_eq_def list_ex_iff)

lemma feature_key_update [simp]:
  "k \<noteq> ''id'' \<Longrightarrow> feature_key (AList.update k v f) = feature_key f"
  by (simp add: feature_key_def update_conv')

lemma map_of_id_update [simp]:
  "k \<noteq> ''id'' \<Longrightarrow> map_of (AList.update k v f) ''id'' = map_of f ''id''"
  by (simp add: update_conv')

lemma first_index_Some:
  assumes "first_index fid fts = Some index"
  shows "index < length fts \<and> map_of (fts ! index) ''id'' \<noteq> None \<and> feature_key (fts ! index) = py_norm fid"
proof -
  let ?P = "\<lambda>v. case map_of (fts ! v) ''id'' of Some g \<Rightarrow> py_eq g fid | None \<Rightarrow> False"
  from assms obtain vs where "filter ?P [0..<length fts] = index # vs"
    by (auto simp: first_index_def split: list.splits)
  then have "index \<in> set (filter ?P [0..<length fts])" by simp
  then have "index < length fts" "?P index" by auto
  then show ?thesis by (auto simp: feature_key_def py_eq_def split: option.splits)
qed

lemma occ_encode_append:
  "parts \<noteq> [] \<Longrightarrow>
   JList ((case occ_encode parts of JList ns \<Rightarrow> ns | _ \<Rightarrow> [occ_encode parts]) @ [JInt j]) = occ_encode (parts @ [j])"
  by (cases parts rule: occ_encode.cases) auto

lemma parts_of_append [simp]:
  "parts_of y (seen @ rest) = parts_of y seen @ parts_of y rest"
  by (simp add: parts_of_def)

lemma parts_of_single [simp]: "parts_of y [(x, j)] = (if x = y then [j] else [])"
  by (simp add: parts_of_def)

lemma parts_of_Nil_iff: "parts_of x seen = [] \<longleftrightarrow> x \<notin> fst ` set seen"
  by (auto simp: parts_of_def filter_empty_conv)

lemma merged_collision:
  assumes m: "merged seen ids fs" and i: "index < length fs"
    and x: "feature_key (fs ! index) = x"
    and n: "map_of (fs ! index) ''searchAreaNumber'' = Some n"
  shows "merged (seen @ [(x, j)]) ids
           (fs[index := AList.update ''searchAreaNumber''
              (JList ((case n of JList ns \<Rightarrow> ns | _ \<Rightarrow> [n]) @ [JInt j])) (fs ! index)])"
proof -
  let ?g = "AList.update ''searchAreaNumber''
              (JList ((case n of JList ns \<Rightarrow> ns | _ \<Rightarrow> [n]) @ [JInt j])) (fs ! index)"
  let ?fs = "fs[index := ?g]"
  from m have a: "map py_norm ids = map feature_key fs"
    and b: "\<forall>f\<in>set fs. map_of f ''id'' \<noteq> None"
    and c: "distinct (map feature_key fs)"
    and d: "set (map feature_key fs) = fst ` set seen"
    and e: "\<forall>i<length fs. map_of (fs ! i) ''searchAreaNumber'' = Some (occ_encode (parts_of (feature_key (fs ! i)) seen))"
    by (auto simp: merged_def)
  have kg: "feature_key ?g = x" using x by simp
  have keys: "map feature_key ?fs = map feature_key fs"
    using i x by (simp add: map_update kg list_update_same_conv)
  have xin: "x \<in> fst ` set seen" using d i x by (metis length_map nth_map nth_mem)
  then have ne: "parts_of x seen \<noteq> []" by (simp add: parts_of_Nil_iff)
  have nval: "n = occ_encode (parts_of x seen)" using e i x n by auto
  have a': "map py_norm ids = map feature_key ?fs" using a keys by simp
  have b': "\<forall>f\<in>set ?fs. map_of f ''id'' \<noteq> None"
  proof
    fix f assume "f \<in> set ?fs"
    then have "f = ?g \<or> f \<in> set fs" using set_update_subset_insert [of fs index ?g] by auto
    then show "map_of f ''id'' \<noteq> None" using b i by auto
  qed
  have c': "distinct (map feature_key ?fs)" using c keys by simp
  have d': "set (map feature_key ?fs) = fst ` set (seen @ [(x, j)])"
    using d keys xin by auto
  have e': "\<forall>i<length ?fs. map_of (?fs ! i) ''searchAreaNumber''
              = Some (occ_encode (parts_of (feature_key (?fs ! i)) (seen @ [(x, j)])))"
  proof (intro allI impI)
    fix i' assume i': "i' < length ?fs"
    show "map_of (?fs ! i') ''searchAreaNumber''
              = Some (occ_encode (parts_of (feature_key (?fs ! i')) (seen @ [(x, j)])))"
    proof (cases "i' = index")
      case True
      then show ?thesis using i kg nval occ_encode_append [OF ne, of j]
        by (simp add: update_conv' cong: json.case_cong)
    next
      case False
      then have same: "?fs ! i' = fs ! i'" by simp
      have "feature_key (fs ! i') \<noteq> x"
        using c i i' False x by (auto simp: distinct_conv_nth)
      then show ?thesis using e i' same by simp
    qed
  qed
  show ?thesis using a' b' c' d' e' unfolding merged_def by blast
qed

lemma merged_new:
  assumes m: "merged seen ids fs" and fid: "map_of feat ''id'' = Some fid"
    and new: "\<not> py_in fid ids"
  shows "merged (seen @ [(py_norm fid, j)]) (ids @ [fid])
           (fs @ [AList.update ''searchAreaNumber'' (JInt j) feat])"
proof -
  let ?x = "py_norm fid"
  let ?f = "AList.update ''searchAreaNumber'' (JInt j) feat"
  from m have a: "map py_norm ids = map feature_key fs"
    and b: "\<forall>f\<in>set fs. map_of f ''id'' \<noteq> None"
    and c: "distinct (map feature_key fs)"
    and d: "set (map feature_key fs) = fst ` set seen"
    and e: "\<forall>i<length fs. map_of (fs ! i) ''searchAreaNumber'' = Some (occ_encode (parts_of (feature_key (fs ! i)) seen))"
    by (auto simp: merged_def)
  have kf: "feature_key ?f = ?x" using fid by (simp add: feature_key_def)
  have notin: "?x \<notin> set (map feature_key fs)" using new a by (simp add: py_in_iff)
  then have notseen: "?x \<notin> fst ` set seen" using d by simp
  have e': "\<forall>i<length (fs @ [?f]). map_of ((fs @ [?f]) ! i) ''searchAreaNumber''
              = Some (occ_encode (parts_of (feature_key ((fs @ [?f]) ! i)) (seen @ [(?x, j)])))"
  proof (intro allI impI)
    fix i assume i: "i < length (fs @ [?f])"
    show "map_of ((fs @ [?f]) ! i) ''searchAreaNumber''
              = Some (occ_encode (parts_of (feature_key ((fs @ [?f]) ! i)) (seen @ [(?x, j)])))"
    proof (cases "i < length fs")
      case True
      then have "feature_key (fs ! i) \<in> set (map feature_key fs)" by simp
      then have "feature_key (fs ! i) \<noteq> ?x" using notin by metis
      then show ?thesis using e True by (simp add: nth_append)
    next
      case False
      with i have "i = length fs" by simp
      moreover have "parts_of ?x seen = []" using notseen by (simp add: parts_of_Nil_iff)
      ultimately show ?thesis using kf by (simp add: update_conv')
    qed
  qed
  show ?thesis
    unfolding merged_def
    using a b c d e' kf notin fid by (auto simp: update_conv')
qed

lemma merge_features_merged:
  "merge_features (JInt j) feats ids geojson_fts new_features = Inr (ids', fts', new') \<Longrightarrow>
   merged seen ids (geojson_fts @ new_features) \<Longrightarrow>
   merged (seen @ map (\<lambda>f. (feature_key f, j)) feats) ids' (fts' @ new')
     \<and> length fts' = length geojson_fts"
proof (induction feats arbitrary: ids geojson_fts new_features seen)
  case Nil
  then show ?case by simp
next
  case (Cons feat feats)
  from Cons.prems(1) obtain fid where fid: "map_of feat ''id'' = Some fid"
    by (auto split: option.splits)
  have key: "feature_key feat = py_norm fid" using fid by (simp add: feature_key_def)
  show ?case
  proof (cases "py_in fid ids")
    case True
    with Cons.prems(1) fid obtain index n where
      idx: "first_index fid geojson_fts = Some index"
      and n: "map_of (geojson_fts ! index) ''searchAreaNumber'' = Some n"
      and rec: "merge_features (JInt j) feats ids
                 (geojson_fts[index := AList.update ''searchAreaNumber''
                    (JList ((case n of JList ns \<Rightarrow> ns | _ \<Rightarrow> [n]) @ [JInt j])) (geojson_fts ! index)])
                 new_features = Inr (ids', fts', new')"
      by (auto simp: Let_def split: option.splits)
    from first_index_Some [OF idx] have i: "index < length geojson_fts"
      and k: "feature_key (geojson_fts ! index) = py_norm fid" by auto
    have "merged (seen @ [(py_norm fid, j)]) ids
            ((geojson_fts @ new_features)[index := AList.update ''searchAreaNumber''
                    (JList ((case n of JList ns \<Rightarrow> ns | _ \<Rightarrow> [n]) @ [JInt j])) ((geojson_fts @ new_features) ! index)])"
      using merged_collision [OF Cons.prems(2), of index "py_norm fid" n j] i k n
      by (simp add: nth_append)
    then have "merged (seen @ [(py_norm fid, j)]) ids
            (geojson_fts[index := AList.update ''searchAreaNumber''
                    (JList ((case n of JList ns \<Rightarrow> ns | _ \<Rightarrow> [n]) @ [JInt j])) (geojson_fts ! index)] @ new_features)"
      using i by (simp add: list_update_append nth_append)
    from Cons.IH [OF rec this] show ?thesis using key by simp
  next
    case False
    with Cons.prems(1) fid have
      rec: "merge_features (JInt j) feats (ids @ [fid]) geojson_fts
              (new_features @ [AList.update ''searchAreaNumber'' (JInt j) feat]) = Inr (ids', fts', new')"
      by simp
    have "merged (seen @ [(py_norm fid, j)]) (ids @ [fid])
            (geojson_fts @ new_features @ [AList.update ''searchAreaNumber'' (JInt j) feat])"
      using merged_new [OF Cons.prems(2) fid False, of j] by simp
    from Cons.IH [OF rec this] show ?thesis using key by simp
  qed
qed

lemma tag_features_keys:
  "tag_features key val fs = Inr tagged \<Longrightarrow> key \<noteq> ''id'' \<Longrightarrow>
   map feature_key tagged = map json_key fs"
proof (induction fs arbitrary: tagged)
  case Nil
  then show ?case by simp
next
  case (Cons f fs)
  then show ?case
    by (auto split: json.splits option.splits sum.splits)
qed

lemma merged_Nil: "merged [] [] []"
  by (simp add: merged_def)

lemma flatten_loop_merged:
  "flatten_loop (number_areas i rs) ids fts nreq nret = Inr (fts', nreq', nret') \<Longrightarrow>
   merged seen ids fts \<Longrightarrow>
   (\<exists>ids'. merged (seen @ seen_from i rs) ids' fts')
     \<and> nreq' = nreq + sum_list (map requests_of rs)
     \<and> nret' = nret + int (length fts') - int (length fts)"
proof (induction rs arbitrary: i ids fts nreq nret seen)
  case Nil
  then show ?case by auto
next
  case (Cons r rs)
  let ?area = "AList.update ''searchAreaNumber'' (JInt (int i)) r"
  have san: "map_of ?area ''searchAreaNumber'' = Some (JInt (int i))"
    and fe: "map_of ?area ''features'' = map_of r ''features''"
    and nr: "map_of ?area ''numberOfRequests'' = map_of r ''numberOfRequests''"
    by (simp_all add: update_conv')
  from Cons.prems(1) san fe nr obtain fv features tagged ids1 fts1 new1 v k where
    fv: "map_of r ''features'' = Some fv" "py_iter fv = Some features"
    and tag: "tag_features ''searchAreaNumber'' (JInt (int i)) features = Inr tagged"
    and mf: "merge_features (JInt (int i)) tagged ids fts [] = Inr (ids1, fts1, new1)"
    and req: "map_of r ''numberOfRequests'' = Some v" "as_int v = Some k"
    and rec: "flatten_loop (number_areas (Suc i) rs) ids1 (fts1 @ new1) (nreq + k)
                (nret + int (length new1)) = Inr (fts', nreq', nret')"
    by (auto split: option.splits sum.splits prod.splits)
  have rf: "response_features r = features" using fv by (simp add: response_features_def)
  have rq: "requests_of r = k" using req by (simp add: requests_of_def)
  from merge_features_merged [OF mf, of seen] Cons.prems(2)
  have m1: "merged (seen @ map (\<lambda>f. (feature_key f, int i)) tagged) ids1 (fts1 @ new1)"
    and len: "length fts1 = length fts" by simp_all
  have "map (\<lambda>f. (feature_key f, int i)) tagged = map (\<lambda>f. (json_key f, int i)) features"
  proof -
    have "map (\<lambda>f. (feature_key f, int i)) tagged = map (\<lambda>k. (k, int i)) (map feature_key tagged)"
      by (simp add: comp_def)
    also have "\<dots> = map (\<lambda>k. (k, int i)) (map json_key features)"
      using tag_features_keys [OF tag] by simp
    also have "\<dots> = map (\<lambda>f. (json_key f, int i)) features"
      by (simp add: comp_def)
    finally show ?thesis .
  qed
  with m1 rf have m2: "merged (seen @ map (\<lambda>f. (json_key f, int i)) (response_features r)) ids1 (fts1 @ new1)"
    by simp
  from Cons.IH [OF rec m2] show ?case using rq len by auto
qed

lemma flatten_search_areas_merged:
  assumes "flatten_search_areas (number_areas 0 rs) now = Inr g"
  shows "\<exists>ids fts. merged (seen_from 0 rs) ids fts
           \<and> g = [(''type'', JStr ''FeatureCollection''),
                  (''numberOfRequests'', JInt (sum_list (map requests_of rs))),
                  (''numberReturned'', JInt (int (length fts))),
                  (''features'', JList (map JObj fts)),
                  (''timeStamp'', JStr now)]"
proof -
  from assms obtain fts nreq nret where
    fl: "flatten_loop (number_areas 0 rs) [] [] 0 0 = Inr (fts, nreq, nret)"
    and g: "g = [(''type'', JStr ''FeatureCollection''),
                  (''numberOfRequests'', JInt nreq),
                  (''numberReturned'', JInt nret),
                  (''features'', JList (map JObj fts)),
                  (''timeStamp'', JStr now)]"
    by (auto simp: flatten_search_areas_def split: sum.splits)
  from flatten_loop_merged [OF fl merged_Nil] g show ?thesis by auto
qed

text \<open>
  C2. Let \<open>flatten_search_areas\<close> return a result for the responses \<open>rs\<close> of the parts,
  numbered from 0 as the wrapper numbers them. Then the keys of the output features are
  pairwise different and are exactly the keys returned by the parts: a feature returned
  by several parts appears once. Its \<open>searchAreaNumber\<close> records the parts that returned
  its key, in order: the scalar for a single part, the list as soon as a second part
  returns it, so \<open>[0, 1]\<close> for a feature of parts 0 and 1. \<open>numberReturned\<close> is the number
  of output features (first occurrences only), and \<open>numberOfRequests\<close> is the sum of the
  parts' \<open>numberOfRequests\<close>.
\<close>

theorem flatten_search_areas_parts:
  assumes "flatten_search_areas (number_areas 0 rs) now = Inr g"
  shows "\<exists>fts. map_of g ''features'' = Some (JList (map JObj fts))
           \<and> distinct (map feature_key fts)
           \<and> set (map feature_key fts) = fst ` set (seen_from 0 rs)
           \<and> (\<forall>f\<in>set fts. map_of f ''searchAreaNumber''
                  = Some (occ_encode (parts_of (feature_key f) (seen_from 0 rs))))
           \<and> (\<forall>f\<in>set fts. parts_of (feature_key f) (seen_from 0 rs) = [0, 1]
                  \<longrightarrow> map_of f ''searchAreaNumber'' = Some (JList [JInt 0, JInt 1]))
           \<and> map_of g ''numberReturned'' = Some (JInt (int (length fts)))
           \<and> map_of g ''numberOfRequests'' = Some (JInt (sum_list (map requests_of rs)))"
proof -
  from flatten_search_areas_merged [OF assms] obtain ids fts where
    m: "merged (seen_from 0 rs) ids fts"
    and g: "g = [(''type'', JStr ''FeatureCollection''),
                  (''numberOfRequests'', JInt (sum_list (map requests_of rs))),
                  (''numberReturned'', JInt (int (length fts))),
                  (''features'', JList (map JObj fts)),
                  (''timeStamp'', JStr now)]"
    by blast
  from m have san: "\<forall>f\<in>set fts. map_of f ''searchAreaNumber''
                  = Some (occ_encode (parts_of (feature_key f) (seen_from 0 rs)))"
    unfolding merged_def by (metis in_set_conv_nth)
  then have "\<forall>f\<in>set fts. parts_of (feature_key f) (seen_from 0 rs) = [0, 1]
                  \<longrightarrow> map_of f ''searchAreaNumber'' = Some (JList [JInt 0, JInt 1])"
    by auto
  with m san g show ?thesis unfolding merged_def by (intro exI [of _ fts]) simp
qed

lemma sample_parts_flat:
  "flatten_search_areas (number_areas 0 sample_parts) ''t'' = Inr sample_flat"
  by (simp add: flatten_search_areas_def sample_parts_def part_a_def part_b_def sample_flat_def
      sample_feature_def flat_feature_def py_in_def py_eq_def first_index_def update_conv')

subsection \<open>The count of returned features\<close>

lemma search_loop_areas:
  "search_loop func kwargs geoms i areas w = (Normal areas', w') \<Longrightarrow>
   \<exists>rs. areas' = areas @ number_areas i rs"
proof (induction geoms arbitrary: i areas w)
  case Nil
  then show ?case by (intro exI [of _ "[]"]) simp
next
  case (Cons g geoms)
  from Cons.prems obtain j w1 where
    rec: "search_loop func kwargs geoms (i + 1)
            (areas @ [AList.update ''searchAreaNumber'' (JInt (int i)) j]) w1 = (Normal areas', w')"
    by (auto split: prod.splits sum.splits bool.splits)
  from Cons.IH [OF rec] obtain rs where
    "areas' = (areas @ [AList.update ''searchAreaNumber'' (JInt (int i)) j]) @ number_areas (i + 1) rs"
    by blast
  then show ?case by (intro exI [of _ "j # rs"]) simp
qed

lemma search_loop_Return:
  "search_loop func kwargs geoms i areas w = (Return r, w') \<Longrightarrow> has_error_code r"
proof (induction geoms arbitrary: i areas w)
  case Nil
  then show ?case by simp
next
  case (Cons g geoms)
  then show ?case
    by (auto simp: code_is_error_iff [symmetric] split: prod.splits sum.splits bool.splits)
qed

lemma number_returned_geometry:
  assumes run: "multigeometry_search_extension func from_wkt now kw w = (Inr r, w')"
    and flat: "kw_hierarchical_output kw \<noteq> Some True" and ok: "map_of r ''code'' = None"
  shows "\<exists>fts. map_of r ''features'' = Some (JList (map JObj fts))
           \<and> map_of r ''numberReturned'' = Some (JInt (int (length fts)))
           \<and> distinct (map feature_key fts) \<and> (\<forall>f\<in>set fts. map_of f ''id'' \<noteq> None)"
proof -
  have nh: "\<not> (case kw_hierarchical_output kw of None \<Rightarrow> False | Some b \<Rightarrow> b)"
    using flat by (auto split: option.splits)
  have ie: "map_of invalid_geometry_error ''code'' \<noteq> None" by (simp add: invalid_geometry_error_def)
  from run ok nh ie obtain search_areas geoms k where
    loop: "search_loop func k geoms 0 [] w = (Normal search_areas, w')"
    and fl: "flatten_search_areas search_areas now = Inr r"
    by (auto simp: multigeometry_search_extension_def Let_def
        split: option.splits prod.splits flow.splits sum.splits if_splits
        dest!: search_loop_Return has_error_code_code)
  from search_loop_areas [OF loop] obtain rs where "search_areas = number_areas 0 rs" by auto
  with fl flatten_search_areas_merged [of rs now r] obtain ids fts where
    m: "merged (seen_from 0 rs) ids fts"
    and g: "r = [(''type'', JStr ''FeatureCollection''),
                  (''numberOfRequests'', JInt (sum_list (map requests_of rs))),
                  (''numberReturned'', JInt (int (length fts))),
                  (''features'', JList (map JObj fts)),
                  (''timeStamp'', JStr now)]"
    by blast
  show ?thesis using m g unfolding merged_def by (intro exI [of _ fts]) simp
qed

lemma results_update_snd:
  "(c, r) \<in> set (results_update col j results) \<Longrightarrow> r = j \<or> r \<in> snd ` set results"
  by (induction results) (force split: if_splits)+

lemma collection_loop_results:
  "collection_loop (logged func) kwargs h cols results w = (Normal results', w') \<Longrightarrow>
   \<forall>r\<in>snd ` set results. P r \<Longrightarrow>
   \<forall>c\<in>set (calls w'). \<forall>r. call_result c = Inr r \<longrightarrow> P r \<Longrightarrow>
   \<forall>r\<in>snd ` set results'. P r"
proof (induction cols arbitrary: results w)
  case Nil
  then show ?case by simp
next
  case (Cons col cols)
  let ?k = "kwargs\<lparr>kw_collection := Some col, kw_hierarchical_output := Some h\<rparr>"
  from Cons.prems(1) obtain j w1 where
    call: "logged func ?k w = (Inr j, w1)"
    and rec: "collection_loop (logged func) kwargs h cols (results_update col j results) w1 = (Normal results', w')"
    by (auto split: prod.splits sum.splits bool.splits if_splits)
  from collection_loop_log [OF rec] obtain new where "calls w' = calls w1 @ new" by blast
  with logged_calls [OF call] have "(?k, heap w, Inr j) \<in> set (calls w')" by simp
  with Cons.prems(3) have "P j" by (auto simp: call_result_def)
  with Cons.prems(2) have "\<forall>r\<in>snd ` set (results_update col j results). P r"
    using results_update_snd [of _ _ col j results] by fastforce
  from Cons.IH [OF rec this Cons.prems(3)] show ?case .
qed

lemma collection_loop_Return:
  "collection_loop func kwargs h cols results w = (Return r, w') \<Longrightarrow> map_of r ''code'' \<noteq> None"
proof (induction cols arbitrary: results w)
  case Nil
  then show ?case by simp
next
  case (Cons col cols)
  have "\<And>j. collection_error j = Inr True \<Longrightarrow> map_of j ''code'' \<noteq> None"
    by (auto simp: collection_error_def py_eq_def Let_def split: option.splits sum.splits bool.splits if_splits)
  with Cons show ?case
    by (auto split: prod.splits sum.splits bool.splits if_splits)
qed

lemma merge_collections_count:
  "merge_collections results feats nreq rb nret retb = Inr (feats', nreq', rb', nret', retb') \<Longrightarrow>
   \<forall>r\<in>snd ` set results. number_returned_ok r \<Longrightarrow>
   nret' - int (length feats') = nret - int (length feats)"
proof (induction results arbitrary: feats nreq rb nret retb)
  case Nil
  then show ?case by simp
next
  case (Cons p results)
  obtain col r where p: "p = (col, r)" by force
  from Cons.prems(1) p obtain fv fs v i v' j where
    f: "map_of r ''features'' = Some fv" "py_iter fv = Some fs"
    and n: "map_of r ''numberReturned'' = Some v'" "as_int v' = Some j"
    and rec: "merge_collections results (feats @ fs) (nreq + i) (AList.update (py_str col) v rb)
                (nret + j) (AList.update (py_str col) v' retb) = Inr (feats', nreq', rb', nret', retb')"
    by (auto split: option.splits)
  from Cons.prems(2) p have "number_returned_ok r" by simp
  with f n have "j = int (length fs)" by (simp add: number_returned_ok_def)
  moreover from Cons.IH [OF rec] Cons.prems(2)
  have "nret' - int (length feats') = (nret + j) - int (length (feats @ fs))" by simp
  ultimately show ?case by simp
qed

lemma number_returned_collections:
  assumes run: "multiple_collections_extension (logged func) (unlogged gc) now collection kw (fresh w)
                  = (Inr r, w')"
    and flat: "kw_hierarchical_output kw \<noteq> Some True" and ok: "map_of r ''code'' = None"
    and children: "\<forall>c\<in>set (calls w'). \<forall>r0. call_result c = Inr r0 \<longrightarrow> number_returned_ok r0"
  shows "\<exists>fs. map_of r ''features'' = Some (JList fs)
           \<and> map_of r ''numberReturned'' = Some (JInt (int (length fs)))"
proof -
  have nh: "\<not> (case kw_hierarchical_output kw of None \<Rightarrow> False | Some b \<Rightarrow> b)"
    using flat by (auto split: option.splits)
  from run ok nh obtain cols k h w0 results feats nreq rb nret retb where
    loop: "collection_loop (logged func) k h cols [] w0 = (Normal results, w')"
    and mc: "merge_collections results [] 0 [] 0 [] = Inr (feats, nreq, rb, nret, retb)"
    and r: "r = [(''type'', JStr ''FeatureCollection''),
                 (''numberOfRequests'', JInt nreq),
                 (''numberOfRequestsByCollection'', JObj rb),
                 (''numberReturned'', JInt nret),
                 (''numberReturnedByCollection'', JObj retb),
                 (''features'', JList feats),
                 (''timeStamp'', JStr now)]"
    by (auto simp: multiple_collections_extension_def Let_def
        split: option.splits prod.splits flow.splits sum.splits if_splits
        dest!: collection_loop_Return)
  from collection_loop_results [OF loop _ children]
  have "\<forall>r\<in>snd ` set results. number_returned_ok r" by simp
  from merge_collections_count [OF mc this] have "nret = int (length feats)" by simp
  with r show ?thesis by simp
qed

text \<open>
  C9. A result of the pagination coordinator that is not an error payload (it has no
  \<open>code\<close>) has \<open>numberReturned\<close> equal to the length of its \<open>features\<close>. The same holds
  for a flattened result of the geometry coordinator, whose features moreover all have an
  \<open>id\<close>, pairwise different. A flattened result of the collection coordinator has the
  equality whenever every result that the wrapped function returned during the run has it.
\<close>

theorem number_returned_invariant:
  "(limit_extension func now kw w = Some (Inr r, w') \<and> map_of r ''code'' = None
      \<longrightarrow> (\<exists>fs. map_of r ''features'' = Some (JList fs)
             \<and> map_of r ''numberReturned'' = Some (JInt (int (length fs)))))
   \<and> (multigeometry_search_extension func from_wkt now kw w = (Inr r, w')
        \<and> kw_hierarchical_output kw \<noteq> Some True \<and> map_of r ''code'' = None
      \<longrightarrow> (\<exists>fts. map_of r ''features'' = Some (JList (map JObj fts))
             \<and> map_of r ''numberReturned'' = Some (JInt (int (length fts)))
             \<and> distinct (map feature_key fts) \<and> (\<forall>f\<in>set fts. map_of f ''id'' \<noteq> None)))
   \<and> (multiple_collections_extension (logged func) (unlogged get_collections) now collection kw (fresh w)
          = (Inr r, v')
        \<and> kw_hierarchical_output kw \<noteq> Some True \<and> map_of r ''code'' = None
        \<and> (\<forall>c\<in>set (calls v'). \<forall>r0. call_result c = Inr r0 \<longrightarrow> number_returned_ok r0)
      \<longrightarrow> (\<exists>fs. map_of r ''features'' = Some (JList fs)
             \<and> map_of r ''numberReturned'' = Some (JInt (int (length fs)))))"
proof (intro conjI impI)
  assume "limit_extension func now kw w = Some (Inr r, w') \<and> map_of r ''code'' = None"
  then show "\<exists>fs. map_of r ''features'' = Some (JList fs)
             \<and> map_of r ''numberReturned'' = Some (JInt (int (length fs)))"
    using number_returned_limit [of func now kw w r w'] by simp
next
  assume "multigeometry_search_extension func from_wkt now kw w = (Inr r, w')
        \<and> kw_hierarchical_output kw \<noteq> Some True \<and> map_of r ''code'' = None"
  then show "\<exists>fts. map_of r ''features'' = Some (JList (map JObj fts))
             \<and> map_of r ''numberReturned'' = Some (JInt (int (length fts)))
             \<and> distinct (map feature_key fts) \<and> (\<forall>f\<in>set fts. map_of f ''id'' \<noteq> None)"
    using number_returned_geometry [of func from_wkt now kw w r w'] by simp
next
  assume "multiple_collections_extension (logged func) (unlogged get_collections) now collection kw (fresh w)
          = (Inr r, v')
        \<and> kw_hierarchical_output kw \<noteq> Some True \<and> map_of r ''code'' = None
        \<and> (\<forall>c\<in>set (calls v'). \<forall>r0. call_result c = Inr r0 \<longrightarrow> number_returned_ok r0)"
  then show "\<exists>fs. map_of r ''features'' = Some (JList fs)
             \<and> map_of r ''numberReturned'' = Some (JInt (int (length fs)))"
    using number_returned_collections [of func get_collections now collection kw w r v'] by simp
qed

text \<open>
  C2 on two parts that both return the feature \<open>a\<close>: three features come out, \<open>a\<close> once
  with \<open>searchAreaNumber = [0, 1]\<close>.
\<close>

theorem flatten_search_areas_parts_witness:
  "flatten_search_areas (number_areas 0 sample_parts) ''t'' = Inr sample_flat
   \<and> parts_of (JStr ''a'') (seen_from 0 sample_parts) = [0, 1]
   \<and> (\<exists>fts. map_of sample_flat ''features'' = Some (JList (map JObj fts))
           \<and> distinct (map feature_key fts)
           \<and> set (map feature_key fts) = fst ` set (seen_from 0 sample_parts)
           \<and> (\<forall>f\<in>set fts. map_of f ''searchAreaNumber''
                  = Some (occ_encode (parts_of (feature_key f) (seen_from 0 sample_parts))))
           \<and> (\<forall>f\<in>set fts. parts_of (feature_key f) (seen_from 0 sample_parts) = [0, 1]
                  \<longrightarrow> map_of f ''searchAreaNumber'' = Some (JList [JInt 0, JInt 1]))
           \<and> map_of sample_flat ''numberReturned'' = Some (JInt (int (length fts)))
           \<and> map_of sample_flat ''numberOfRequests'' = Some (JInt (sum_list (map requests_of sample_parts))))"
proof -
  have "parts_of (JStr ''a'') (seen_from 0 sample_parts) = [0, 1]"
    by (simp add: parts_of_def sample_parts_def part_a_def part_b_def response_features_def
        sample_feature_def feature_key_def)
  then show ?thesis
    using sample_parts_flat flatten_search_areas_parts [OF sample_parts_flat] by simp
qed

lemma run_limit_single:
  "limit_extension (static_fetch empty_page) ''t'' (no_kwargs\<lparr>kw_limit := Some 5\<rparr>) (empty_world ())
     = Some (Inr [(''type'', JStr ''FeatureCollection''), (''numberOfRequests'', JInt 1),
                  (''numberReturned'', JInt 0), (''timeStamp'', JStr ''t''),
                  (''collection'', JNull), (''features'', JList [])],
             \<lparr>heap = [[(''limit'', JInt 5), (''offset'', JInt 0)]], environ = [], upstream = ()\<rparr>)"
  apply (simp add: limit_extension_unfold caller_query_def no_kwargs_def request_limit_of_def not_int_def
      copy_or_empty_def alloc_def empty_world_def)
  apply (subst limit_loop.simps)
  apply (simp add: not_int_def Let_def static_fetch_def read_page_def code_is_error_def
      empty_page_def set_item_def deref_def)
  done

lemma run_geometry_parts:
  "multigeometry_search_extension parts_fetch parse_two_parts ''t''
       (no_kwargs\<lparr>kw_wkt := Some (WktText ''MULTIPOLYGON (A, B)'')\<rparr>) (empty_world ())
     = (Inr sample_flat, empty_world ())"
  using sample_parts_flat
  by (simp add: multigeometry_search_extension_def parse_two_parts_def two_parts_def no_kwargs_def
      parts_fetch_def code_is_error_def part_a_def part_b_def sample_parts_def)

lemma run_collections_parts:
  "\<exists>w'. multiple_collections_extension (logged (static_fetch part_a)) (unlogged sample_catalogue) ''t''
          [''bld-fts-buildingpart-1'', ''bld-fts-buildingline-2''] no_kwargs (fresh (empty_world ()))
     = (Inr [(''type'', JStr ''FeatureCollection''),
             (''numberOfRequests'', JInt 2),
             (''numberOfRequestsByCollection'',
                JObj [(''bld-fts-buildingpart-1'', JInt 1), (''bld-fts-buildingline-2'', JInt 1)]),
             (''numberReturned'', JInt 4),
             (''numberReturnedByCollection'',
                JObj [(''bld-fts-buildingpart-1'', JInt 2), (''bld-fts-buildingline-2'', JInt 2)]),
             (''features'', JList [sample_feature ''a'', sample_feature ''b'',
                                   sample_feature ''a'', sample_feature ''b'']),
             (''timeStamp'', JStr ''t'')], w')
     \<and> map call_result (calls w') = [Inr part_a, Inr part_a]"
  by (simp add: multiple_collections_extension_def no_kwargs_def logged_def static_fetch_def
      collection_error_def part_a_def calls_def call_result_def fresh_def empty_world_def py_eq_def
      py_str_def)

lemma number_returned_ok_part_a: "number_returned_ok part_a"
  by (simp add: number_returned_ok_def part_a_def)

text \<open>
  C9 at concrete runs: one page; two search areas sharing a feature (three features come
  out); two collections of two features each.
\<close>

theorem number_returned_invariant_witness:
  "(\<exists>r w'. limit_extension (static_fetch empty_page) ''t'' (no_kwargs\<lparr>kw_limit := Some 5\<rparr>)
               (empty_world ()) = Some (Inr r, w') \<and> map_of r ''code'' = None
      \<and> (\<exists>fs. map_of r ''features'' = Some (JList fs)
             \<and> map_of r ''numberReturned'' = Some (JInt (int (length fs)))))
   \<and> (\<exists>r w'. multigeometry_search_extension parts_fetch parse_two_parts ''t''
          (no_kwargs\<lparr>kw_wkt := Some (WktText ''MULTIPOLYGON (A, B)'')\<rparr>) (empty_world ()) = (Inr r, w')
        \<and> map_of r ''code'' = None
        \<and> (\<exists>fts. map_of r ''features'' = Some (JList (map JObj fts))
             \<and> map_of r ''numberReturned'' = Some (JInt (int (length fts)))
             \<and> length fts = 3
             \<and> distinct (map feature_key fts)))
   \<and> (\<exists>r v'. multiple_collections_extension (logged (static_fetch part_a)) (unlogged sample_catalogue) ''t''
          [''bld-fts-buildingpart-1'', ''bld-fts-buildingline-2''] no_kwargs (fresh (empty_world ()))
          = (Inr r, v')
        \<and> map_of r ''code'' = None
        \<and> map call_result (calls v') = [Inr part_a, Inr part_a]
        \<and> number_returned_ok part_a
        \<and> (\<exists>fs. map_of r ''features'' = Some (JList fs) \<and> length fs = 4
             \<and> map_of r ''numberReturned'' = Some (JInt (int (length fs)))))"
proof (intro conjI)
  let ?r = "[(''type'', JStr ''FeatureCollection''), (''numberOfRequests'', JInt 1),
                  (''numberReturned'', JInt 0), (''timeStamp'', JStr ''t''),
                  (''collection'', JNull), (''features'', JList [])]"
  have "map_of ?r ''code'' = None" by simp
  with run_limit_single
    number_returned_invariant [where func = "static_fetch empty_page" and now = "''t''"
      and kw = "no_kwargs\<lparr>kw_limit := Some 5\<rparr>" and w = "empty_world ()" and r = ?r
      and w' = "\<lparr>heap = [[(''limit'', JInt 5), (''offset'', JInt 0)]], environ = [], upstream = ()\<rparr>"]
  show "\<exists>r w'. limit_extension (static_fetch empty_page) ''t'' (no_kwargs\<lparr>kw_limit := Some 5\<rparr>)
               (empty_world ()) = Some (Inr r, w') \<and> map_of r ''code'' = None
      \<and> (\<exists>fs. map_of r ''features'' = Some (JList fs)
             \<and> map_of r ''numberReturned'' = Some (JInt (int (length fs))))"
    by blast
next
  have c: "map_of sample_flat ''code'' = None" by (simp add: sample_flat_def)
  have h: "kw_hierarchical_output (no_kwargs\<lparr>kw_wkt := Some (WktText ''MULTIPOLYGON (A, B)'')\<rparr>) \<noteq> Some True"
    by (simp add: no_kwargs_def)
  from c h run_geometry_parts
    number_returned_invariant [where func = parts_fetch and from_wkt = parse_two_parts and now = "''t''"
      and kw = "no_kwargs\<lparr>kw_wkt := Some (WktText ''MULTIPOLYGON (A, B)'')\<rparr>"
      and w = "empty_world ()" and r = sample_flat and w' = "empty_world ()"]
  obtain fts where f: "map_of sample_flat ''features'' = Some (JList (map JObj fts))"
      "map_of sample_flat ''numberReturned'' = Some (JInt (int (length fts)))"
      "distinct (map feature_key fts)"
    by blast
  from f(2) have "length fts = 3" by (simp add: sample_flat_def)
  with f c run_geometry_parts
  show "\<exists>r w'. multigeometry_search_extension parts_fetch parse_two_parts ''t''
          (no_kwargs\<lparr>kw_wkt := Some (WktText ''MULTIPOLYGON (A, B)'')\<rparr>) (empty_world ()) = (Inr r, w')
        \<and> map_of r ''code'' = None
        \<and> (\<exists>fts. map_of r ''features'' = Some (JList (map JObj fts))
             \<and> map_of r ''numberReturned'' = Some (JInt (int (length fts)))
             \<and> length fts = 3
             \<and> distinct (map feature_key fts))"
    by blast
next
  from run_collections_parts obtain r v' where
    run: "multiple_collections_extension (logged (static_fetch part_a)) (unlogged sample_catalogue) ''t''
          [''bld-fts-buildingpart-1'', ''bld-fts-buildingline-2''] no_kwargs (fresh (empty_world ()))
          = (Inr r, v')"
    and c: "map_of r ''code'' = None"
    and cs: "map call_result (calls v') = [Inr part_a, Inr part_a]"
    and four: "\<exists>fs. map_of r ''features'' = Some (JList fs) \<and> length fs = 4"
    by auto
  have ch: "\<forall>c\<in>set (calls v'). \<forall>r0. call_result c = Inr r0 \<longrightarrow> number_returned_ok r0"
  proof (intro ballI allI impI)
    fix c r0 assume "c \<in> set (calls v')" "call_result c = Inr r0"
    then have "Inr r0 \<in> set (map call_result (calls v'))" by force
    with cs show "number_returned_ok r0" using number_returned_ok_part_a by auto
  qed
  have h: "kw_hierarchical_output no_kwargs \<noteq> Some True" by (simp add: no_kwargs_def)
  from run c ch h
    number_returned_invariant [where func = "static_fetch part_a" and get_collections = sample_catalogue
      and now = "''t''" and collection = "[''bld-fts-buildingpart-1'', ''bld-fts-buildingline-2'']"
      and kw = no_kwargs and w = "empty_world ()" and r = r and v' = v']
  have "\<exists>fs. map_of r ''features'' = Some (JList fs)
             \<and> map_of r ''numberReturned'' = Some (JInt (int (length fs)))"
    by blast
  with four have "\<exists>fs. map_of r ''features'' = Some (JList fs) \<and> length fs = 4
             \<and> map_of r ''numberReturned'' = Some (JInt (int (length fs)))"
    by auto
  then have five: "\<exists>fs. map_of r ''features'' = Some (JList fs) \<and> length fs = 4
             \<and> map_of r ''numberReturned'' = Some (JInt (int (length fs)))" .
  show "\<exists>r v'. multiple_collections_extension (logged (static_fetch part_a)) (unlogged sample_catalogue) ''t''
          [''bld-fts-buildingpart-1'', ''bld-fts-buildingline-2''] no_kwargs (fresh (empty_world ()))
          = (Inr r, v')
        \<and> map_of r ''code'' = None
        \<and> map call_result (calls v') = [Inr part_a, Inr part_a]
        \<and> number_returned_ok part_a
        \<and> (\<exists>fs. map_of r ''features'' = Some (JList fs) \<and> length fs = 4
             \<and> map_of r ''numberReturned'' = Some (JInt (int (length fs))))"
    by (rule exI [of _ r], rule exI [of _ v'])
       (use run c cs number_returned_ok_part_a five in simp)
qed

subsection \<open>Unresolvable collection names\<close>

lemma sample_lookup:
  "get_latest_collection_versions [''bld-fts-buildingline-1'', ''bld-fts-buildingline-2'', ''trn-ntwk-street-1'']
     = Inr [(''bld-fts-buildingline'', ''bld-fts-buildingline-2''), (''trn-ntwk-street'', ''trn-ntwk-street-1'')]"
  by code_simp

lemma apply_latest_unresolved:
  "apply_latest_collection sample_catalogue [''bld-fts-buildingline-2'', ''nonexistent''] w
     = (Inr (map snd (not_found_error ''nonexistent'') @ [JStr ''bld-fts-buildingline-2'']), w)"
  by (simp add: apply_latest_collection_def sample_catalogue_def get_specific_latest_collections_def
      sample_lookup is_digit_def)

lemma collection_loop_first_call:
  assumes "collection_loop (logged func) kwargs h (col # cols) results w = (fl, w')"
  shows "\<exists>c new. calls w' = calls w @ c # new \<and> kw_collection (fst c) = Some col"
proof -
  let ?k = "kwargs\<lparr>kw_collection := Some col, kw_hierarchical_output := Some h\<rparr>"
  obtain r w1 where call: "logged func ?k w = (r, w1)" by force
  have c1: "calls w1 = calls w @ [(?k, heap w, r)]" using logged_calls [OF call] .
  show ?thesis
  proof (cases "\<exists>j. r = Inr j \<and> collection_error j = Inr False \<and> hashable col")
    case True
    then obtain j where j: "r = Inr j" "collection_error j = Inr False" "hashable col" by blast
    with assms call have "collection_loop (logged func) kwargs h cols (results_update col j results) w1 = (fl, w')"
      by simp
    from collection_loop_log [OF this] obtain new where "calls w' = calls w1 @ new" by blast
    with c1 show ?thesis by (intro exI [of _ "(?k, heap w, r)"] exI [of _ new]) simp
  next
    case False
    with assms call have "w' = w1"
      by (auto split: sum.splits bool.splits if_splits)
    with c1 show ?thesis by (intro exI [of _ "(?k, heap w, r)"] exI [of _ "[]"]) simp
  qed
qed

lemma unresolved_name_first_call:
  assumes "split_versions collection [] [] = Inr (has_version, no_version)"
    and "get_collections (upstream w) = (Inr collections_list, u')"
    and "get_latest_collection_versions collections_list = Inr latest"
    and "lookup_all latest no_version [] = Inl col"
    and "kw_collection kw = None" "kw_use_latest_collection kw = Some True"
    and "multiple_collections_extension (logged func) (unlogged get_collections) now collection kw (fresh w)
           = (res, w')"
  shows "\<exists>c new. calls w' = c # new \<and> kw_collection (fst c) = Some (JInt 404)"
proof -
  let ?w0 = "\<lparr>heap = heap w, environ = environ w, upstream = (u', [])\<rparr> :: ('a \<times> call list) world"
  have al: "apply_latest_collection (unlogged get_collections) collection (fresh w)
        = (Inr (map snd (not_found_error col) @ map JStr has_version), ?w0)"
    using assms(1-4)
    by (simp add: apply_latest_collection_def unlogged_def fresh_def get_specific_latest_collections_def)
  have nf: "map snd (not_found_error col) @ map JStr has_version
        = JInt 404 # tl (map snd (not_found_error col)) @ map JStr has_version"
    by (simp add: not_found_error_def)
  from assms(5-7) al obtain k h fl where
    "collection_loop (logged func) k h (JInt 404 # tl (map snd (not_found_error col)) @ map JStr has_version)
        [] ?w0 = (fl, w')"
    unfolding multiple_collections_extension_def Let_def nf [symmetric]
    by (auto split: prod.splits flow.splits sum.splits if_splits)
  from collection_loop_first_call [OF this] show ?thesis by (simp add: calls_def)
qed

text \<open>
  C4. With \<open>use_latest_collection\<close> set and the unresolvable base name \<open>nonexistent\<close> after a
  versioned name, the collection coordinator does not return the resolver's 404 payload
  before any fetch. The values of that payload become collection names, so the first fetch
  is made for the collection \<open>404\<close>, and the answer of the wrapped function to that fetch is
  what comes back; it is not the resolver's payload naming \<open>nonexistent\<close>.
\<close>

theorem unresolved_collection_is_fetched:
  "\<exists>w'. multiple_collections_extension (logged known_collection_fetch) (unlogged sample_catalogue) ''t''
          [''bld-fts-buildingline-2'', ''nonexistent''] latest_kwargs (fresh (empty_world ()))
        = (Inr unknown_collection, w')
      \<and> map (\<lambda>c. kw_collection (fst c)) (calls w') = [Some (JInt 404)]
      \<and> unknown_collection \<noteq> not_found_error ''nonexistent''"
proof -
  have "apply_latest_collection (unlogged sample_catalogue) [''bld-fts-buildingline-2'', ''nonexistent'']
          (fresh (empty_world ()))
     = (Inr (map snd (not_found_error ''nonexistent'') @ [JStr ''bld-fts-buildingline-2'']),
        fresh (empty_world ()))"
    by (simp add: apply_latest_collection_def sample_catalogue_def get_specific_latest_collections_def
      sample_lookup is_digit_def unlogged_def fresh_def empty_world_def)
  then show ?thesis
    by (simp add: multiple_collections_extension_def latest_kwargs_def no_kwargs_def
        not_found_error_def logged_def known_collection_fetch_def collection_error_def
        unknown_collection_def py_eq_def calls_def fresh_def empty_world_def)
qed

subsection \<open>Auth decorator\<close>




lemma traced_environ_heap:
  "traced func kw w = (r, w') \<Longrightarrow>
     func kw \<lparr>heap = heap w, environ = environ w, upstream = fst (upstream w)\<rparr>
       = (r, \<lparr>heap = heap w', environ = environ w', upstream = fst (upstream w')\<rparr>)"
  by (auto simp: traced_def split: prod.splits)



lemma events_untraced [simp]: "events (untraced w) = []"
  and heap_untraced [simp]: "heap (untraced w) = heap w"
  and environ_untraced [simp]: "environ (untraced w) = environ w"
  by (simp_all add: untraced_def events_def)

lemma events_set_item [simp]: "events (set_item a k v w) = events w"
  by (simp add: events_def set_item_def)

lemma events_copy_or_empty [simp]: "events (snd (copy_or_empty p w)) = events w"
  by (simp add: events_def)

lemma environ_copy_or_empty [simp]: "environ (snd (copy_or_empty p w)) = environ w"
  by (simp add: copy_or_empty_def alloc_def split: option.splits)












lemma code_is_401_unauthorized: "code_is_401 unauthorized" "\<not> code_is_401 empty_page"
  by (simp_all add: code_is_401_def unauthorized_def empty_page_def py_eq_def)



subsection \<open>The caller's dictionaries\<close>

lemma unchanged_below_refl [simp]: "unchanged_below n w w"
  by (simp add: unchanged_below_def)



lemma unchanged_below_heap_eq:
  "heap w' = heap w \<Longrightarrow> unchanged_below n w w'"
  by (simp add: unchanged_below_def)


lemma length_copy_or_empty [simp]:
  "length (heap (snd (copy_or_empty p w))) = Suc (length (heap w))"
  by (simp add: copy_or_empty_def alloc_def split: option.splits)


lemma length_set_item [simp]: "length (heap (set_item a k v w)) = length (heap w)"
  by (simp add: set_item_def)







lemma unchanged_below_upstream [simp]:
  "unchanged_below n w (w'\<lparr>upstream := u\<rparr>) = unchanged_below n w w'"
  "unchanged_below n (w\<lparr>upstream := u\<rparr>) w' = unchanged_below n w w'"
  by (simp_all add: unchanged_below_def)

lemma unchanged_below_environ [simp]:
  "unchanged_below n w (w'\<lparr>environ := e\<rparr>) = unchanged_below n w w'"
  by (simp add: unchanged_below_def)












lemma oauth_meddling:
  "caller_mappings caller_kwargs
         (snd (oauth2_manager meddling_fetch rejecting_endpoint caller_kwargs caller_world))
       \<noteq> caller_mappings caller_kwargs caller_world"
  by (simp add: oauth2_manager_def copy_or_empty_def alloc_def set_item_def deref_def Let_def
      meddling_fetch_def caller_kwargs_def caller_world_def no_kwargs_def code_is_401_def
      empty_page_def caller_mappings_def)

lemma limit_meddling:
  "\<exists>w'. limit_extension meddling_fetch ''t'' (caller_kwargs\<lparr>kw_limit := Some 10\<rparr>) caller_world
       = Some (Inr [(''type'', JStr ''FeatureCollection''),
                   (''numberOfRequests'', JInt 1),
                   (''numberReturned'', JInt 0),
                   (''timeStamp'', JStr ''t''),
                   (''collection'', JStr ''bld-fts-buildingline-2''),
                   (''features'', JList [])], w')
     \<and> caller_mappings (caller_kwargs\<lparr>kw_limit := Some 10\<rparr>) w'
           \<noteq> caller_mappings (caller_kwargs\<lparr>kw_limit := Some 10\<rparr>) caller_world"
  apply (simp add: limit_extension_unfold caller_query_def caller_kwargs_def no_kwargs_def
      request_limit_of_def not_int_def copy_or_empty_def alloc_def caller_world_def deref_def)
  apply (subst limit_loop.simps)
  apply (simp add: not_int_def Let_def meddling_fetch_def read_page_def code_is_error_def
      empty_page_def set_item_def deref_def next_links.simps caller_mappings_def)
  done



lemma crs_contains: "str_contains ''crs'' ''crs''"
  by simp





subsection \<open>Version resolver\<close>

lemma flask_prefix:
  "get_latest_collection_versions_flask [''bld-fts-building-1'', ''bld-fts-buildingline-2'']
     = Inr [(''bld-fts-building'', ''bld-fts-buildingline-2''),
            (''bld-fts-buildingline'', ''bld-fts-buildingline-2'')]"
  by code_simp

lemma azure_prefix:
  "get_latest_collection_versions [''bld-fts-building-1'', ''bld-fts-buildingline-2'']
     = Inr [(''bld-fts-building'', ''bld-fts-building-1''),
            (''bld-fts-buildingline'', ''bld-fts-buildingline-2'')]"
  by code_simp

lemma flask_sample:
  "get_latest_collection_versions_flask
       [''bld-fts-buildingline-1'', ''bld-fts-buildingline-2'', ''trn-ntwk-street-1'']
     = Inr [(''bld-fts-buildingline'', ''bld-fts-buildingline-2''),
            (''trn-ntwk-street'', ''trn-ntwk-street-1'')]"
  by code_simp

lemma azure_sample:
  "get_latest_collection_versions
       [''bld-fts-buildingline-1'', ''bld-fts-buildingline-2'', ''trn-ntwk-street-1'']
     = Inr [(''bld-fts-buildingline'', ''bld-fts-buildingline-2''),
            (''trn-ntwk-street'', ''trn-ntwk-street-1'')]"
  by code_simp

text \<open>
  C7. On the catalogue \<open>bld-fts-building-1\<close>, \<open>bld-fts-buildingline-2\<close> the resolver of
  \<open>src/app_flask\<close> maps the base name \<open>bld-fts-building\<close> to \<open>bld-fts-buildingline-2\<close>,
  an id of another base name: its candidates are the ids that start with the base name.
  The resolver of \<open>src/Azure\<close> maps it to \<open>bld-fts-building-1\<close>. On the catalogue of the
  example both map \<open>bld-fts-buildingline\<close> to \<open>bld-fts-buildingline-2\<close> and
  \<open>trn-ntwk-street\<close> to \<open>trn-ntwk-street-1\<close>; the result of \<open>src/Azure\<close> is shown in
  full.
\<close>

theorem flask_resolver_prefix:
  "resolved (get_latest_collection_versions_flask [''bld-fts-building-1'', ''bld-fts-buildingline-2''])
       ''bld-fts-building'' = Some ''bld-fts-buildingline-2''
   \<and> resolved (get_latest_collection_versions [''bld-fts-building-1'', ''bld-fts-buildingline-2''])
       ''bld-fts-building'' = Some ''bld-fts-building-1''
   \<and> resolved (get_latest_collection_versions_flask
         [''bld-fts-buildingline-1'', ''bld-fts-buildingline-2'', ''trn-ntwk-street-1''])
       ''bld-fts-buildingline'' = Some ''bld-fts-buildingline-2''
   \<and> resolved (get_latest_collection_versions_flask
         [''bld-fts-buildingline-1'', ''bld-fts-buildingline-2'', ''trn-ntwk-street-1''])
       ''trn-ntwk-street'' = Some ''trn-ntwk-street-1''
   \<and> get_latest_collection_versions
         [''bld-fts-buildingline-1'', ''bld-fts-buildingline-2'', ''trn-ntwk-street-1'']
       = Inr [(''bld-fts-buildingline'', ''bld-fts-buildingline-2''),
              (''trn-ntwk-street'', ''trn-ntwk-street-1'')]"
  by (simp add: flask_prefix azure_prefix flask_sample azure_sample resolved_def)

end
